theory Spec2Isabelle
  imports Main "HOL-Library.Code_Target_Nat" "HOL-Library.Sublist"
begin

section \<open>JavaScript strings\<close>

text \<open>
  A JavaScript string is a sequence of UTF-16 code units; \<open>length\<close> counts code units.
  Every character the server's patterns name lies in the Basic Multilingual Plane, where a
  code unit is the code point. Source characters are written as hexadecimal code points.
\<close>

type_synonym jstring = "nat list"

text \<open>The code units of an ASCII literal of the source.\<close>

definition ascii :: "string \<Rightarrow> jstring" where
  "ascii s = map of_char s"

text \<open>
  \<open>for (const char of text)\<close> iterates by code point: a high surrogate followed by a low
  surrogate is one code point, any other code unit stands for itself.
\<close>

fun codePoints :: "jstring \<Rightarrow> nat list" where
  "codePoints [] = []"
| "codePoints [u] = [u]"
| "codePoints (u # v # rest) =
     (if 0xD800 \<le> u \<and> u \<le> 0xDBFF \<and> 0xDC00 \<le> v \<and> v \<le> 0xDFFF
      then (0x10000 + (u - 0xD800) * 0x400 + (v - 0xDC00)) # codePoints rest
      else u # codePoints (v # rest))"

text \<open>
  The characters \<open>String.prototype.trim\<close> removes and \<open>\s\<close> matches: the ECMAScript
  WhiteSpace and LineTerminator code points.
\<close>

definition isWhiteSpace :: "nat \<Rightarrow> bool" where
  "isWhiteSpace c =
     (c = 0x09 \<or> c = 0x0A \<or> c = 0x0B \<or> c = 0x0C \<or> c = 0x0D \<or> c = 0x20 \<or> c = 0xA0
      \<or> c = 0x1680 \<or> (0x2000 \<le> c \<and> c \<le> 0x200A) \<or> c = 0x2028 \<or> c = 0x2029
      \<or> c = 0x202F \<or> c = 0x205F \<or> c = 0x3000 \<or> c = 0xFEFF)"

definition trimEnd :: "jstring \<Rightarrow> jstring" where
  "trimEnd t = rev (dropWhile isWhiteSpace (rev t))"

definition trim :: "jstring \<Rightarrow> jstring" where
  "trim t = trimEnd (dropWhile isWhiteSpace t)"

text \<open>\<open>stripBom\<close>: drop one leading U+FEFF.\<close>

fun stripBom :: "jstring \<Rightarrow> jstring" where
  "stripBom [] = []"
| "stripBom (c # cs) = (if c = 0xFEFF then cs else c # cs)"

section \<open>Decoder\<close>

fun detectBomEncoding :: "nat list \<Rightarrow> string option" where
  "detectBomEncoding buffer =
     (if length buffer \<ge> 3 \<and> buffer ! 0 = 0xEF \<and> buffer ! 1 = 0xBB \<and> buffer ! 2 = 0xBF
      then Some ''utf8''
      else if length buffer \<ge> 2 \<and> buffer ! 0 = 0xFF \<and> buffer ! 1 = 0xFE
      then (if length buffer \<ge> 4 \<and> buffer ! 2 = 0x00 \<and> buffer ! 3 = 0x00
            then Some ''utf32le'' else Some ''utf16le'')
      else if length buffer \<ge> 2 \<and> buffer ! 0 = 0xFE \<and> buffer ! 1 = 0xFF
      then Some ''utf16be''
      else if length buffer \<ge> 4 \<and> buffer ! 0 = 0x00 \<and> buffer ! 1 = 0x00
              \<and> buffer ! 2 = 0xFE \<and> buffer ! 3 = 0xFF
      then Some ''utf32be''
      else None)"

record text_stats =
  hanCount :: nat
  asciiCount :: nat
  latinSupplementCount :: nat
  replacementCount :: nat
  textLength :: nat

text \<open>The ranges \<open>analyzeTextStats\<close> counts as Han ideographs.\<close>

definition isHan :: "nat \<Rightarrow> bool" where
  "isHan code =
     ((0x4E00 \<le> code \<and> code \<le> 0x9FFF) \<or> (0x3400 \<le> code \<and> code \<le> 0x4DBF)
      \<or> (0x20000 \<le> code \<and> code \<le> 0x2A6DF) \<or> (0x2A700 \<le> code \<and> code \<le> 0x2B73F)
      \<or> (0x2B740 \<le> code \<and> code \<le> 0x2B81F) \<or> (0x2B820 \<le> code \<and> code \<le> 0x2CEAF)
      \<or> (0x2CEB0 \<le> code \<and> code \<le> 0x2EBEF) \<or> (0x2F800 \<le> code \<and> code \<le> 0x2FA1F))"

text \<open>One iteration of the loop of \<open>analyzeTextStats\<close>, in the order of its branches.\<close>

definition countChar :: "nat \<Rightarrow> text_stats \<Rightarrow> text_stats" where
  "countChar code st =
     (if code = 0xFFFD then st\<lparr>replacementCount := replacementCount st + 1\<rparr>
      else if isHan code then st\<lparr>hanCount := hanCount st + 1\<rparr>
      else if 0x20 \<le> code \<and> code \<le> 0x7E then st\<lparr>asciiCount := asciiCount st + 1\<rparr>
      else if 0x80 \<le> code \<and> code \<le> 0xFF
      then st\<lparr>latinSupplementCount := latinSupplementCount st + 1\<rparr>
      else st)"

definition analyzeTextStats :: "jstring \<Rightarrow> text_stats" where
  "analyzeTextStats t =
     fold countChar (codePoints t)
       \<lparr>hanCount = 0, asciiCount = 0, latinSupplementCount = 0, replacementCount = 0,
        textLength = length t\<rparr>"

text \<open>A score is a finite number or \<open>-Infinity\<close>.\<close>

datatype score = NegInfinity | Score int

fun scoreGreater :: "score \<Rightarrow> score \<Rightarrow> bool" where
  "scoreGreater (Score a) (Score b) = (a > b)"
| "scoreGreater (Score a) NegInfinity = True"
| "scoreGreater NegInfinity _ = False"

definition scoreDecodedText :: "text_stats \<Rightarrow> string \<Rightarrow> score" where
  "scoreDecodedText stats encoding =
     (if textLength stats = 0 then NegInfinity
      else Score (int (hanCount stats) * 6 + int (asciiCount stats) * 2
                  - int (latinSupplementCount stats) * 3 - int (replacementCount stats) * 20
                  + (if encoding = ''utf8'' \<or> encoding = ''utf-8'' then 5 else 0)))"

text \<open>
  The two decoding libraries are outside the repository: \<open>Buffer.toString\<close> (total) and
  \<open>iconv.decode\<close> (\<open>None\<close> when it throws) are parameters.
\<close>

record codec =
  bufferToString :: "string \<Rightarrow> nat list \<Rightarrow> jstring"
  iconvDecode :: "string \<Rightarrow> nat list \<Rightarrow> jstring option"

definition decodeWithEncoding :: "codec \<Rightarrow> nat list \<Rightarrow> string \<Rightarrow> jstring option" where
  "decodeWithEncoding lib buffer encoding =
     (if encoding = ''utf8'' \<or> encoding = ''utf-8''
      then Some (stripBom (bufferToString lib ''utf8'' buffer))
      else if encoding = ''utf16le'' \<or> encoding = ''utf-16le''
      then Some (stripBom (bufferToString lib ''utf16le'' buffer))
      else if encoding = ''utf16be'' \<or> encoding = ''utf-16be''
      then map_option stripBom (iconvDecode lib ''utf16-be'' buffer)
      else if encoding = ''utf32le'' \<or> encoding = ''utf-32le''
      then map_option stripBom (iconvDecode lib ''utf32le'' buffer)
      else if encoding = ''utf32be'' \<or> encoding = ''utf-32be''
      then map_option stripBom (iconvDecode lib ''utf32be'' buffer)
      else map_option stripBom (iconvDecode lib encoding buffer))"

definition candidateOrder :: "nat list \<Rightarrow> string list" where
  "candidateOrder buffer =
     (case detectBomEncoding buffer of Some detected \<Rightarrow> [detected] | None \<Rightarrow> [])
     @ [''utf8'', ''utf16le'', ''utf16be'', ''gb18030'', ''big5'', ''latin1'']"

text \<open>The body of the candidate loop: the state is \<open>(bestText, bestScore)\<close>.\<close>

definition tryCandidate ::
  "codec \<Rightarrow> nat list \<Rightarrow> string \<Rightarrow> jstring option \<times> score \<Rightarrow> jstring option \<times> score" where
  "tryCandidate lib buffer encoding best =
     (case decodeWithEncoding lib buffer encoding of
        None \<Rightarrow> best
      | Some decoded \<Rightarrow>
          if decoded = [] then best
          else let sc = scoreDecodedText (analyzeTextStats decoded) encoding
               in if scoreGreater sc (snd best) then (Some decoded, sc) else best)"

definition decodeScriptBuffer :: "codec \<Rightarrow> nat list \<Rightarrow> jstring" where
  "decodeScriptBuffer lib buffer =
     (if buffer = [] then []
      else case fold (tryCandidate lib buffer) (candidateOrder buffer) (None, NegInfinity) of
             (Some bestText, bestScore) \<Rightarrow>
               if bestText \<noteq> [] \<and> scoreGreater bestScore NegInfinity then bestText
               else stripBom (bufferToString lib ''utf8'' buffer)
           | (None, _) \<Rightarrow> stripBom (bufferToString lib ''utf8'' buffer))"


section \<open>Text helpers\<close>

text \<open>\<open>haystack.includes(needle)\<close> and a pattern anchored at the start.\<close>

definition startsWith :: "jstring \<Rightarrow> jstring \<Rightarrow> bool" where
  "startsWith t k = (take (length k) t = k)"

fun str_includes :: "jstring \<Rightarrow> jstring \<Rightarrow> bool" where
  "str_includes [] k = (k = [])"
| "str_includes (c # cs) k = (startsWith (c # cs) k \<or> str_includes cs k)"

text \<open>A pattern \<open>/(k1|k2|...)/\<close> of literal alternatives, tested anywhere in the text.\<close>

definition includesAny :: "jstring \<Rightarrow> jstring list \<Rightarrow> bool" where
  "includesAny t ks = list_ex (str_includes t) ks"

text \<open>\<open>text.indexOf(c)\<close> for a single character: \<open>-1\<close> when absent.\<close>

fun indexOf :: "jstring \<Rightarrow> nat \<Rightarrow> int" where
  "indexOf [] c = -1"
| "indexOf (x # xs) c =
     (if x = c then 0 else (let r = indexOf xs c in if r < 0 then -1 else r + 1))"

text \<open>\<open>.replace(/[class]+$/, '')\<close>: drop the trailing run of characters of a class.\<close>

definition dropTrailing :: "(nat \<Rightarrow> bool) \<Rightarrow> jstring \<Rightarrow> jstring" where
  "dropTrailing P t = rev (dropWhile P (rev t))"

text \<open>
  \<open>text.match(/[^P]+[P]?/gu)\<close> for a class \<open>P\<close> of Basic-Plane characters: each match is
  a maximal run of characters outside \<open>P\<close> followed by at most one character of \<open>P\<close>; a
  character of \<open>P\<close> at which no run starts is passed over. The empty list stands for
  \<open>null\<close> (no match).
\<close>

fun matchRuns :: "(nat \<Rightarrow> bool) \<Rightarrow> jstring \<Rightarrow> jstring \<Rightarrow> jstring list" where
  "matchRuns P run [] = (if run = [] then [] else [rev run])"
| "matchRuns P run (c # cs) =
     (if P c then (if run = [] then matchRuns P [] cs else rev (c # run) # matchRuns P [] cs)
      else matchRuns P (c # run) cs)"

definition matchSentences :: "(nat \<Rightarrow> bool) \<Rightarrow> jstring \<Rightarrow> jstring list" where
  "matchSentences P t = matchRuns P [] t"

text \<open>\<open>/[.,\<dots>]/\<close> of \<open>normalizePunctuation\<close>: full stop, comma and their CJK forms.\<close>

definition normalizePunctuation :: "jstring \<Rightarrow> jstring" where
  "normalizePunctuation t =
     map (\<lambda>c. if c \<in> set [0x2E, 0x2C, 0xFF0C, 0x3002, 0x3001] then 0x20 else c) t"

text \<open>The sentence terminators of \<open>chunkScript\<close> and \<open>fallbackSegmentScript\<close>.\<close>

definition isTerminator :: "nat \<Rightarrow> bool" where
  "isTerminator c = (c \<in> set [0x3002, 0xFF01, 0xFF1F, 0x21, 0x3F])"

text \<open>
  \<open>text.split(/\r?\n+/)\<close>: a separator is an optional carriage return followed by one or
  more line feeds. \<open>piece\<close> holds the current piece in reverse.
\<close>

function splitLines :: "jstring \<Rightarrow> jstring \<Rightarrow> jstring list" where
  "splitLines piece [] = [rev piece]"
| "splitLines piece (c # cs) =
     (if c = 0x0A then rev piece # splitLines [] (dropWhile (\<lambda>d. d = 0x0A) cs)
      else if c = 0x0D \<and> cs \<noteq> [] \<and> hd cs = 0x0A
      then rev piece # splitLines [] (dropWhile (\<lambda>d. d = 0x0A) cs)
      else splitLines (c # piece) cs)"
  by pat_completeness auto
termination
  by (relation "measure (\<lambda>(piece, t). length t)")
     (auto simp: le_imp_less_Suc length_dropWhile_le)

definition paragraphsOf :: "jstring \<Rightarrow> jstring list" where
  "paragraphsOf rawText = filter (\<lambda>p. p \<noteq> []) (map trim (splitLines [] rawText))"

section \<open>Chunker\<close>

text \<open>
  The loop of \<open>chunkLongUnit\<close> for a positive limit. With limit \<open>0\<close> the source's loop
  never ends on a non-empty unit (each round slices nothing off): \<open>chunkLongUnit\<close>
  returns \<open>None\<close> there.
\<close>

function chunkLongLoop :: "jstring \<Rightarrow> nat \<Rightarrow> jstring list" where
  "chunkLongLoop remaining limit =
     (if 0 < limit \<and> length remaining > limit
      then take limit remaining # chunkLongLoop (drop limit remaining) limit
      else if trim remaining \<noteq> [] then [remaining] else [])"
  by pat_completeness auto
termination
  by (relation "measure (\<lambda>(remaining, limit). length remaining)") auto

declare chunkLongLoop.simps [simp del]

definition chunkLongUnit :: "jstring \<Rightarrow> nat \<Rightarrow> jstring list option" where
  "chunkLongUnit unit limit =
     (if limit = 0 \<and> unit \<noteq> [] then None else Some (chunkLongLoop unit limit))"

text \<open>The sentence units of the script: every paragraph's sentences, trimmed, empty ones dropped.\<close>

definition sentencesOf :: "jstring \<Rightarrow> jstring list" where
  "sentencesOf paragraph =
     (let ms = matchSentences isTerminator paragraph in if ms = [] then [paragraph] else ms)"

definition unitsOf :: "jstring \<Rightarrow> jstring list" where
  "unitsOf rawText =
     concat (map (\<lambda>paragraph. filter (\<lambda>u. u \<noteq> []) (map trim (sentencesOf paragraph)))
               (paragraphsOf rawText))"

text \<open>\<open>pushCurrent\<close> on the pair \<open>(chunks, current)\<close>.\<close>

definition pushCurrent :: "jstring list \<times> jstring \<Rightarrow> jstring list \<times> jstring" where
  "pushCurrent st =
     (if trim (snd st) \<noteq> [] then (fst st @ [trim (snd st)], []) else (fst st, []))"

text \<open>
  One round of \<open>units.forEach\<close>; \<open>None\<close> when \<open>chunkLongUnit\<close> does not return.
\<close>

definition chunkStep ::
  "nat \<Rightarrow> jstring \<Rightarrow> (jstring list \<times> jstring) option \<Rightarrow> (jstring list \<times> jstring) option" where
  "chunkStep limit unit state =
     (case state of
        None \<Rightarrow> None
      | Some st \<Rightarrow>
          if length unit > limit
          then (let st1 = (if snd st \<noteq> [] then pushCurrent st else st)
                in case chunkLongUnit unit limit of
                     None \<Rightarrow> None
                   | Some pieces \<Rightarrow> Some (fst st1 @ map trim pieces, snd st1))
          else (let appended = (if snd st \<noteq> [] then snd st @ [0x0A] @ unit else unit)
                in if length appended > limit \<and> snd st \<noteq> []
                   then Some (fst (pushCurrent st), unit)
                   else Some (fst st, appended)))"

definition chunkScript :: "jstring \<Rightarrow> nat \<Rightarrow> jstring list option" where
  "chunkScript rawText limit =
     (let units = unitsOf rawText
      in if units = [] then Some (if trim rawText \<noteq> [] then [trim rawText] else [])
         else case fold (chunkStep limit) units (Some ([], [])) of
                None \<Rightarrow> None
              | Some st \<Rightarrow>
                  (let chunks = fst (if snd st \<noteq> [] then pushCurrent st else st)
                   in Some (if chunks \<noteq> [] then chunks else [trim rawText])))"

definition MAX_CHUNK_LENGTH :: nat where
  "MAX_CHUNK_LENGTH = 2500"

section \<open>Line text and line types\<close>

definition DIALOGUE :: jstring where
  "DIALOGUE = ascii ''dialogue''"

definition DIRECTION :: jstring where
  "DIRECTION = ascii ''direction''"

definition MAX_LINE_LENGTH :: nat where
  "MAX_LINE_LENGTH = 20"

text \<open>
  \<open>toLowerCase\<close> on the letters A to Z. A character outside ASCII is left as it is: no
  such character lower-cases to a string of letters of the two type names, so
  \<open>clampLineType\<close> decides as the source does.
\<close>

definition toLowerCase :: "jstring \<Rightarrow> jstring" where
  "toLowerCase t = map (\<lambda>c. if 0x41 \<le> c \<and> c \<le> 0x5A then c + 0x20 else c) t"

text \<open>\<open>clampLineType\<close>: the argument is \<open>None\<close> when it is not a string; \<open>None\<close> is \<open>null\<close>.\<close>

definition clampLineType :: "jstring option \<Rightarrow> jstring option" where
  "clampLineType rawType =
     (case rawType of
        None \<Rightarrow> None
      | Some s \<Rightarrow>
          (let normalized = toLowerCase s
           in if normalized = DIALOGUE then Some DIALOGUE
              else if normalized = DIRECTION then Some DIRECTION
              else None))"

text \<open>\<open>.replace(/\r?\n/g, ' ')\<close>.\<close>

fun replaceNewlines :: "jstring \<Rightarrow> jstring" where
  "replaceNewlines [] = []"
| "replaceNewlines [c] = (if c = 0x0A then [0x20] else [c])"
| "replaceNewlines (c # d # rest) =
     (if c = 0x0D \<and> d = 0x0A then 0x20 # replaceNewlines rest
      else if c = 0x0A then 0x20 # replaceNewlines (d # rest)
      else c # replaceNewlines (d # rest))"

text \<open>\<open>sanitizeLineText\<close> on a string (callers that hold another value convert it first).\<close>

definition sanitizeLineText :: "jstring \<Rightarrow> jstring" where
  "sanitizeLineText t = trim (replaceNewlines (stripBom t))"

section \<open>Heuristic classifier\<close>

definition openBrackets :: "nat list" where
  "openBrackets = [0xFF08, 0x28, 0x3010, 0x300A, 0x3008, 0x300C, 0x300E, 0x5B, 0x7B]"

definition closeBrackets :: "nat list" where
  "closeBrackets = [0xFF09, 0x29, 0x3011, 0x300B, 0x3009, 0x300D, 0x300F, 0x5D, 0x7D]"

text \<open>The characters \<open>.\<close> does not match: the line terminators.\<close>

definition isLineTerminator :: "nat \<Rightarrow> bool" where
  "isLineTerminator c = (c = 0x0A \<or> c = 0x0D \<or> c = 0x2028 \<or> c = 0x2029)"

text \<open>
  \<open>bracketPattern.test\<close>, for \<open>/^[open]+.*[close]+$/\<close>: the text splits into a run of
  opening brackets, a middle without line terminator and a run of closing brackets. A
  bracket is no line terminator, so this holds exactly when the text has two characters
  or more, begins with an opening bracket, ends with a closing one and holds no line
  terminator.
\<close>

definition bracketPattern :: "jstring \<Rightarrow> bool" where
  "bracketPattern t =
     (length t \<ge> 2 \<and> hd t \<in> set openBrackets \<and> last t \<in> set closeBrackets
      \<and> list_all (\<lambda>c. \<not> isLineTerminator c) t)"

definition innerBracketText :: "jstring \<Rightarrow> jstring" where
  "innerBracketText t =
     trim (dropTrailing (\<lambda>c. c \<in> set closeBrackets) (dropWhile (\<lambda>c. c \<in> set openBrackets) t))"

definition startsWithKeyword :: "jstring list" where
  "startsWithKeyword =
     [[0x821E, 0x53F0], [0x71C8, 0x5149], [0x97F3, 0x6548], [0x9F13, 0x8072],
      [0x638C, 0x8072], [0x65C1, 0x767D], [0x5168, 0x5834], [0x5E55, 0x524D],
      [0x5E55, 0x5F8C], [0x5834, 0x666F], [0x8F49, 0x5834], [0x9ED1, 0x5834],
      [0x74B0, 0x5883, 0x97F3], [0x6240, 0x6709, 0x4EBA], [0x773E, 0x4EBA], [0x5408, 0x5531],
      [0x7FA4, 0x773E], [0x71C8, 0x6697], [0x71C8, 0x4EAE], [0x9ED1, 0x71C8],
      [0x5927, 0x5408, 0x5531], [0x97F3, 0x6A02], [0x5E8F, 0x66F2], [0x65C1, 0x767D, 0x8072]]"

definition shortKeywords :: "jstring list" where
  "shortKeywords =
     [[0x821E, 0x53F0], [0x71C8, 0x5149], [0x97F3, 0x6548], [0x6697],
      [0x975C, 0x5834], [0x6C89, 0x9ED8], [0x9F13, 0x8072], [0x638C, 0x8072],
      [0x958B, 0x71C8], [0x6EC5, 0x71C8], [0x79FB, 0x52D5], [0x9032, 0x5834],
      [0x9000, 0x5834], [0x8F49, 0x8EAB]]"

definition directionKeywords :: "jstring list" where
  "directionKeywords =
     [[0x821E, 0x53F0], [0x71C8, 0x5149], [0x97F3, 0x6548], [0x9F13, 0x8072],
      [0x638C, 0x8072], [0x9ED1, 0x5834], [0x8F49, 0x5834], [0x5E55],
      [0x6697], [0x4EAE], [0x975C], [0x6C89, 0x9ED8],
      [0x65C1, 0x767D], [0x7FA4, 0x773E], [0x5408, 0x5531], [0x74B0, 0x5883, 0x97F3],
      [0x97F3, 0x6A02], [0x594F, 0x8D77], [0x97FF, 0x8D77], [0x821E, 0x8005],
      [0x6F14, 0x54E1], [0x8D70, 0x5411], [0x9000, 0x5834], [0x9032, 0x5834],
      [0x767B, 0x5834], [0x8D77, 0x8EAB], [0x5750, 0x4E0B], [0x7AD9, 0x8D77],
      [0x770B, 0x5411], [0x62B1, 0x4F4F], [0x645F, 0x4F4F], [0x79FB, 0x52D5],
      [0x8F49, 0x5411], [0x6307, 0x5411], [0x671B, 0x5411], [0x505C, 0x9813]]"

text \<open>The alternatives of the anchored pattern tested on a bracketed text's interior.\<close>

definition wholeKeywords :: "jstring list" where
  "wholeKeywords =
     [[0x821E, 0x53F0], [0x71C8, 0x5149], [0x97F3, 0x6548], [0x9F13, 0x8072],
      [0x638C, 0x8072], [0x65C1, 0x767D], [0x5168, 0x5834], [0x773E, 0x4EBA],
      [0x5408, 0x5531], [0x7FA4, 0x773E], [0x9ED1, 0x5834], [0x8F49, 0x5834],
      [0x71C8, 0x6697], [0x71C8, 0x4EAE], [0x9ED1, 0x71C8], [0x97F3, 0x6A02],
      [0x5E8F, 0x66F2], [0x65C1, 0x767D, 0x8072], [0x5E55, 0x524D], [0x5E55, 0x5F8C]]"

definition speakerKeywords :: "jstring list" where
  "speakerKeywords =
     [[0x821E, 0x53F0], [0x71C8, 0x5149], [0x97F3, 0x6548], [0x9F13, 0x8072],
      [0x638C, 0x8072], [0x97F3, 0x6A02]]"

definition movementKeywords :: "jstring list" where
  "movementKeywords =
     [[0x5411], [0x671D], [0x7DE9, 0x7DE9], [0x6162, 0x6162],
      [0x770B, 0x8457], [0x8D70, 0x5411], [0x9000, 0x5F8C], [0x6536, 0x8D77],
      [0x62FF, 0x8D77], [0x653E, 0x4E0B], [0x8D77, 0x8EAB], [0x5750, 0x4E0B],
      [0x7AD9, 0x8D77], [0x62B1, 0x4F4F], [0x8D70, 0x4E0A], [0x8D70, 0x4E0B],
      [0x63E1, 0x4F4F]]"

text \<open>The quote and bracket marks removed before the keywords are counted.\<close>

definition isMark :: "nat \<Rightarrow> bool" where
  "isMark c =
     (c \<in> set [0x300C, 0x300D, 0x300E, 0x300F, 0x201C, 0x201D, 0x22, 0x27, 0x5B, 0x5D,
                0x3010, 0x3011, 0xFF08, 0xFF09, 0x28, 0x29])"

definition isQuoteMark :: "nat \<Rightarrow> bool" where
  "isQuoteMark c = (c \<in> set [0x22, 0x300C, 0x300D, 0x300E, 0x300F, 0x201C, 0x201D])"

definition keywordHits :: "jstring \<Rightarrow> nat" where
  "keywordHits normalized = length (filter (str_includes normalized) directionKeywords)"

text \<open>\<open>isLikelyDirection\<close>, rule by rule in the order of the source.\<close>

definition isLikelyDirection :: "jstring \<Rightarrow> bool" where
  "isLikelyDirection text =
     (let trimmed = sanitizeLineText text in
      if trimmed = [] then False
      else
        let isBracketWrapped = bracketPattern trimmed;
            inner = (if isBracketWrapped then innerBracketText trimmed else []);
            keywordTarget = (if inner \<noteq> [] then inner else trimmed)
        in
        if list_ex (startsWith trimmed) startsWithKeyword then True
        else if \<not> isTerminator (last trimmed) \<and> length trimmed \<le> 16
                \<and> includesAny trimmed shortKeywords then True
        else
          let normalized = filter (\<lambda>c. \<not> isMark c) keywordTarget;
              hits = keywordHits normalized
          in
          if isBracketWrapped then (hits \<ge> 1 \<or> keywordTarget \<in> set wholeKeywords)
          else if \<not> list_ex isQuoteMark trimmed \<and> hits \<ge> 2 then True
          else
            let colonIndex = max (indexOf trimmed 0xFF1A) (indexOf trimmed 0x3A)
            in
            if colonIndex > -1 \<and> colonIndex \<le> 6
            then includesAny (take (nat colonIndex) trimmed) speakerKeywords
            else if hits \<ge> 1 \<and> \<not> list_ex isTerminator trimmed \<and> length trimmed \<le> 24
                    \<and> \<not> list_ex (\<lambda>c. c = 0x3A \<or> c = 0xFF1A) trimmed then True
            else if \<not> list_ex isTerminator trimmed \<and> includesAny trimmed movementKeywords
            then True
            else False)"

section \<open>Subtitle lines and their normalization\<close>

text \<open>A stored line \<open>{text, type}\<close>: the fields are \<open>ltext\<close> and \<open>ltype\<close>, both strings.\<close>

record line =
  ltext :: jstring
  ltype :: jstring

text \<open>
  An element handed to \<open>normalizeLineEntry\<close>. \<open>RNull\<close> is \<open>null\<close> or \<open>undefined\<close>;
  \<open>RString s\<close> a string; \<open>RObject t ty\<close> an object, where \<open>t\<close> is the string
  \<open>sanitizeLineText\<close> makes of \<open>entry.text ?? entry.line ?? entry.caption ?? ''\<close> before it
  strips and trims, and \<open>ty\<close> is \<open>entry.type ?? entry.kind ?? entry.category ?? ''\<close> when
  that is a string (\<open>None\<close> otherwise); \<open>ROther\<close> any other value (a number, a boolean).
\<close>

datatype raw_entry = RNull | RString jstring | RObject jstring "jstring option" | ROther

definition toEntry :: "line \<Rightarrow> raw_entry" where
  "toEntry l = RObject (ltext l) (Some (ltype l))"

definition classify :: "jstring \<Rightarrow> jstring" where
  "classify t = (if isLikelyDirection t then DIRECTION else DIALOGUE)"

fun normalizeLineEntry :: "raw_entry \<Rightarrow> bool \<Rightarrow> line option" where
  "normalizeLineEntry RNull keepEmpty = None"
| "normalizeLineEntry (RString s) keepEmpty =
     (let t = sanitizeLineText s
      in if t = [] then (if keepEmpty then Some \<lparr>ltext = [], ltype = DIALOGUE\<rparr> else None)
         else Some \<lparr>ltext = t, ltype = classify t\<rparr>)"
| "normalizeLineEntry (RObject s ty) keepEmpty =
     (let t = sanitizeLineText s
      in if t = [] \<and> \<not> keepEmpty then None
         else (case clampLineType ty of
                 Some rawType \<Rightarrow> Some \<lparr>ltext = t, ltype = rawType\<rparr>
               | None \<Rightarrow> Some \<lparr>ltext = t, ltype = classify t\<rparr>))"
| "normalizeLineEntry ROther keepEmpty = None"

text \<open>The type every pushed line gets: \<open>direction\<close> when the item's is, else \<open>dialogue\<close>.\<close>

definition pushedType :: "jstring \<Rightarrow> jstring" where
  "pushedType ty = (if ty = DIRECTION then DIRECTION else DIALOGUE)"

subsection \<open>Inline bracketed asides\<close>

text \<open>The closing bracket of each alternative of the aside pattern.\<close>

definition closerOf :: "nat \<Rightarrow> nat option" where
  "closerOf c =
     (if c = 0xFF08 then Some 0xFF09 else if c = 0x28 then Some 0x29
      else if c = 0x3010 then Some 0x3011 else if c = 0xFF3B then Some 0xFF3D
      else if c = 0x3008 then Some 0x3009 else if c = 0x300A then Some 0x300B
      else None)"

text \<open>
  One \<open>pattern.exec\<close> on the rest of the text: the leftmost opening bracket that has
  its closing bracket later on; the match runs to the first such closing bracket. The
  result is the text before the match, the match and the text after it.
\<close>

fun findAside :: "jstring \<Rightarrow> (jstring \<times> jstring \<times> jstring) option" where
  "findAside [] = None"
| "findAside (c # cs) =
     (case closerOf c of
        Some cl \<Rightarrow>
          if cl \<in> set cs
          then Some ([], c # takeWhile (\<lambda>d. d \<noteq> cl) cs @ [cl], tl (dropWhile (\<lambda>d. d \<noteq> cl) cs))
          else map_option (\<lambda>(b, m, a). (c # b, m, a)) (findAside cs)
      | None \<Rightarrow> map_option (\<lambda>(b, m, a). (c # b, m, a)) (findAside cs))"

text \<open>The two patterns of \<open>pushSegment\<close> that decide whether a space joins two fragments.\<close>

definition joinsAfter :: "nat \<Rightarrow> bool" where
  "joinsAfter c =
     (isWhiteSpace c \<or> c \<in> set [0x3000, 0xFF0C, 0x2C, 0x3002, 0xFF0E, 0x2E, 0x3001, 0xFF01, 0x21,
        0xFF1F, 0x3F, 0x3A, 0xFF1A, 0xFF1B, 0x3B, 0xFF08, 0x28, 0x3010, 0x300C, 0x300E, 0x300A,
        0x3008])"

definition joinsBefore :: "nat \<Rightarrow> bool" where
  "joinsBefore c =
     (isWhiteSpace c \<or> c \<in> set [0x3000, 0xFF0C, 0x2C, 0x3002, 0xFF0E, 0x2E, 0x3001, 0xFF01, 0x21,
        0xFF1F, 0x3F, 0x3A, 0xFF1A, 0xFF1B, 0x3B, 0xFF09, 0x29, 0x3011, 0x300D, 0x300F, 0x300B,
        0x3009])"

definition pushSegment :: "line list \<Rightarrow> jstring \<Rightarrow> jstring \<Rightarrow> line list" where
  "pushSegment segments rawText ty =
     (let sanitized = sanitizeLineText rawText
      in if sanitized = [] then segments
         else if ty = DIALOGUE \<and> segments \<noteq> [] \<and> ltype (last segments) = DIALOGUE
         then (let previous = last segments;
                   needsLeadingSpace =
                     (if (ltext previous \<noteq> [] \<and> joinsAfter (last (ltext previous)))
                         \<or> joinsBefore (hd sanitized)
                      then [] else [0x20])
               in butlast segments
                  @ [previous\<lparr>ltext := trim (ltext previous @ needsLeadingSpace @ sanitized)\<rparr>])
         else segments @ [\<lparr>ltext = sanitized, ltype = ty\<rparr>])"

lemma findAside_shorter:
  "findAside t = Some (b, m, a) \<Longrightarrow> length a < length t"
proof (induction t arbitrary: b m a)
  case Nil
  then show ?case by simp
next
  case (Cons c cs)
  have tl_le: "length (tl (dropWhile P cs)) \<le> length cs" for P
    by (metis length_dropWhile_le diff_le_self length_tl le_trans)
  from Cons show ?case
    using tl_le by (fastforce split: option.splits if_splits simp: le_imp_less_Suc)
qed

text \<open>The \<open>while\<close> loop over the matches, and the last fragment after it.\<close>

function expandLoop :: "line list \<Rightarrow> jstring \<Rightarrow> line list" where
  "expandLoop segments t =
     (case findAside t of
        None \<Rightarrow> pushSegment segments t DIALOGUE
      | Some (b, m, a) \<Rightarrow>
          expandLoop (pushSegment (pushSegment segments b DIALOGUE) m (classify m)) a)"
  by pat_completeness auto
termination
  by (relation "measure (\<lambda>(segments, t). length t)") (auto simp: findAside_shorter)

declare expandLoop.simps [simp del]

definition expandStageDirectionSegments :: "line \<Rightarrow> line list" where
  "expandStageDirectionSegments entry =
     (if ltext entry = [] then []
      else if ltype entry = DIRECTION then [entry]
      else (let segments = expandLoop [] (ltext entry)
            in if segments = [] then [entry] else segments))"

subsection \<open>Punctuation and symbols\<close>

text \<open>
  \<open>\p{P}\<close> and \<open>\p{S}\<close> are tables of the Unicode database, outside the repository: the
  class \<open>[\p{P}\p{S}]\<close> is the parameter \<open>ps\<close>, a predicate on code points. Under the
  \<open>u\<close> flag the pattern removes whole code points.
\<close>

fun removeCodePoints :: "(nat \<Rightarrow> bool) \<Rightarrow> jstring \<Rightarrow> jstring" where
  "removeCodePoints ps [] = []"
| "removeCodePoints ps [u] = (if ps u then [] else [u])"
| "removeCodePoints ps (u # v # rest) =
     (if 0xD800 \<le> u \<and> u \<le> 0xDBFF \<and> 0xDC00 \<le> v \<and> v \<le> 0xDFFF
      then (if ps (0x10000 + (u - 0xD800) * 0x400 + (v - 0xDC00))
            then removeCodePoints ps rest else u # v # removeCodePoints ps rest)
      else (if ps u then removeCodePoints ps (v # rest) else u # removeCodePoints ps (v # rest)))"

text \<open>\<open>!cleanedText.replace(/[\p{P}\p{S}]/gu, '').trim()\<close>.\<close>

definition punctuationOnly :: "(nat \<Rightarrow> bool) \<Rightarrow> jstring \<Rightarrow> bool" where
  "punctuationOnly ps t = (trim (removeCodePoints ps t) = [])"

subsection \<open>normalizeScriptLines\<close>

definition isStrayCloser :: "nat \<Rightarrow> bool" where
  "isStrayCloser c = (c \<in> set [0x300D, 0x300F, 0x300B, 0x3009, 0x5D, 0x29, 0x7D])"

definition isStrayOpener :: "nat \<Rightarrow> bool" where
  "isStrayOpener c = (c \<in> set [0x300C, 0x300E, 0x300A, 0x3008, 0x5B, 0x28])"

text \<open>The body of \<open>expanded.forEach\<close>: the lines one expanded item contributes.\<close>

definition normalizeItem :: "(nat \<Rightarrow> bool) \<Rightarrow> bool \<Rightarrow> line \<Rightarrow> line list" where
  "normalizeItem ps keepEmpty item =
     (let t = sanitizeLineText (ltext item)
      in if t = [] then (if keepEmpty then [\<lparr>ltext = [], ltype = pushedType (ltype item)\<rparr>] else [])
         else (let cleanedText = trim (dropTrailing isStrayOpener (dropWhile isStrayCloser t))
               in if cleanedText = [] \<and> \<not> keepEmpty then []
                  else if punctuationOnly ps cleanedText \<and> \<not> keepEmpty then []
                  else [\<lparr>ltext = cleanedText, ltype = pushedType (ltype item)\<rparr>]))"

text \<open>The body of \<open>entries.forEach\<close>: the lines one entry contributes.\<close>

definition normalizeEntry :: "(nat \<Rightarrow> bool) \<Rightarrow> bool \<Rightarrow> raw_entry \<Rightarrow> line list" where
  "normalizeEntry ps keepEmpty entry =
     (case normalizeLineEntry entry keepEmpty of
        None \<Rightarrow> []
      | Some base \<Rightarrow>
          if ltext base = []
          then (if keepEmpty then [\<lparr>ltext = [], ltype = pushedType (ltype base)\<rparr>] else [])
          else concat (map (normalizeItem ps keepEmpty) (expandStageDirectionSegments base)))"

text \<open>\<open>normalizeScriptLines\<close> on an array (any other argument gives the empty list).\<close>

definition normalizeScriptLines :: "(nat \<Rightarrow> bool) \<Rightarrow> raw_entry list \<Rightarrow> bool \<Rightarrow> line list" where
  "normalizeScriptLines ps entries keepEmpty =
     (let normalized = concat (map (normalizeEntry ps keepEmpty) entries)
      in if keepEmpty then normalized else filter (\<lambda>entry. ltext entry \<noteq> []) normalized)"

subsection \<open>Line length\<close>

text \<open>The clause marks at which \<open>chunkDialogueText\<close> cuts a text into sentences.\<close>

definition isClauseEnd :: "nat \<Rightarrow> bool" where
  "isClauseEnd c = (c \<in> set [0x3002, 0xFF01, 0xFF1F, 0x21, 0x3F, 0xFF1B, 0x3B, 0xFF0C, 0x2C, 0x3001])"

definition isBreakSpace :: "nat \<Rightarrow> bool" where
  "isBreakSpace c = (c = 0x20 \<or> c = 0x3000)"

definition isSoftPunctuation :: "nat \<Rightarrow> bool" where
  "isSoftPunctuation c = (c \<in> set [0xFF0C, 0x2C, 0x3001, 0xFF1B, 0x3B, 0x2026])"

text \<open>
  A loop \<open>for (i = start; i > low; i -= 1) if (P(text[i - 1])) return i\<close>; \<open>None\<close> when
  it ends without returning.
\<close>

fun scanDown :: "(nat \<Rightarrow> bool) \<Rightarrow> jstring \<Rightarrow> nat \<Rightarrow> nat \<Rightarrow> nat option" where
  "scanDown P t low 0 = None"
| "scanDown P t low (Suc j) =
     (if Suc j > low then (if P (t ! j) then Some (Suc j) else scanDown P t low j) else None)"

definition findBreakPosition :: "jstring \<Rightarrow> nat \<Rightarrow> nat" where
  "findBreakPosition t limit =
     (if length t \<le> limit then length t
      else case scanDown isBreakSpace t 0 (min limit (length t - 1)) of
             Some i \<Rightarrow> i
           | None \<Rightarrow>
               (case scanDown isSoftPunctuation t (max (limit - 5) 1) limit of
                  Some i \<Rightarrow> i
                | None \<Rightarrow> length t))"

lemma scanDown_bounds: "scanDown P t low i = Some k \<Longrightarrow> low < k \<and> k \<le> i"
  by (induction i) (auto split: if_splits)

lemma findBreakPosition_positive:
  "findBreakPosition t limit < length t \<Longrightarrow> 0 < findBreakPosition t limit"
  by (auto simp: findBreakPosition_def split: if_splits option.splits dest: scanDown_bounds)

lemma length_replaceNewlines: "length (replaceNewlines t) \<le> length t"
  by (induction t rule: replaceNewlines.induct) auto

lemma length_trim: "length (trim t) \<le> length t"
  unfolding trim_def trimEnd_def
  by (metis length_dropWhile_le length_rev le_trans)

lemma length_stripBom: "length (stripBom t) \<le> length t"
  by (cases t) auto

lemma length_sanitizeLineText: "length (sanitizeLineText t) \<le> length t"
  unfolding sanitizeLineText_def
  by (meson length_trim length_replaceNewlines length_stripBom le_trans)

text \<open>
  The \<open>while (remaining.length > limit)\<close> loop of \<open>chunkDialogueText\<close> with the push that
  follows it, for one sanitized sentence.
\<close>

function splitRemaining :: "jstring \<Rightarrow> nat \<Rightarrow> jstring list" where
  "splitRemaining remaining limit =
     (if length remaining > limit
      then (let cut = findBreakPosition remaining limit
            in if cut \<ge> length remaining then [remaining]
               else (let part = sanitizeLineText (take cut remaining);
                         rest = sanitizeLineText (drop cut remaining)
                     in (if part \<noteq> [] then [part] else [])
                        @ (if rest = [] then [] else splitRemaining rest limit)))
      else (if remaining \<noteq> [] then [remaining] else []))"
  by pat_completeness auto
termination
proof (relation "measure (\<lambda>(remaining, limit). length remaining)")
  show "wf (measure (\<lambda>(remaining, limit). length remaining))" by simp
next
  fix remaining :: jstring and limit cut part rest
  assume "cut = findBreakPosition remaining limit" and "\<not> length remaining \<le> cut"
    and "rest = sanitizeLineText (drop cut remaining)"
  moreover from this have "0 < cut" by (simp add: findBreakPosition_positive)
  moreover have "length (sanitizeLineText (drop cut remaining)) \<le> length (drop cut remaining)"
    by (rule length_sanitizeLineText)
  ultimately show "((rest, limit), (remaining, limit)) \<in> measure (\<lambda>(remaining, limit). length remaining)"
    by simp
qed

declare splitRemaining.simps [simp del]

definition chunkDialogueText :: "jstring \<Rightarrow> nat \<Rightarrow> jstring list" where
  "chunkDialogueText t limit =
     (let ms = matchSentences isClauseEnd t;
          sentences = (if ms = [] then [t] else ms)
      in concat (map (\<lambda>sentence.
                   let remaining = sanitizeLineText sentence
                   in if remaining = [] then [] else splitRemaining remaining limit)
                 sentences))"

text \<open>The body of \<open>entries.forEach\<close> in \<open>enforceLineLengths\<close>.\<close>

definition enforceEntry :: "nat \<Rightarrow> line \<Rightarrow> line list" where
  "enforceEntry limit entry =
     (if ltext entry = [] then []
      else if ltype entry = DIRECTION \<or> length (ltext entry) \<le> limit then [entry]
      else map (\<lambda>t. \<lparr>ltext = t, ltype = DIALOGUE\<rparr>)
             (filter (\<lambda>t. t \<noteq> []) (map sanitizeLineText (chunkDialogueText (ltext entry) limit))))"

definition enforceLineLengths :: "line list \<Rightarrow> nat \<Rightarrow> line list" where
  "enforceLineLengths entries limit = concat (map (enforceEntry limit) entries)"

section \<open>Segmenter\<close>

subsection \<open>Fallback segmentation\<close>

definition fallbackUnits :: "jstring \<Rightarrow> jstring list" where
  "fallbackUnits paragraph =
     (let ms = matchSentences isTerminator paragraph
      in if ms \<noteq> [] then filter (\<lambda>u. u \<noteq> []) (map trim ms) else [paragraph])"

definition fallbackSegmentScript :: "jstring \<Rightarrow> line list" where
  "fallbackSegmentScript rawText =
     concat (map (\<lambda>paragraph.
               concat (map (\<lambda>unit.
                         let t = sanitizeLineText unit
                         in if t = [] then [] else [\<lparr>ltext = t, ltype = classify t\<rparr>])
                       (fallbackUnits paragraph)))
             (paragraphsOf rawText))"

subsection \<open>Validation of the service's lines\<close>

text \<open>\<open>placeholderRegex\<close>: an optional ordinal prefix, one or more numerals, one counter word.\<close>

definition isNumeral :: "nat \<Rightarrow> bool" where
  "isNumeral c =
     (c \<in> set [0x96F6, 0x3007, 0x4E00, 0x4E8C, 0x4E09, 0x56DB, 0x4E94, 0x516D, 0x4E03, 0x516B,
                0x4E5D, 0x5341, 0x767E, 0x5343] \<or> (0x30 \<le> c \<and> c \<le> 0x39))"

definition isCounterWord :: "nat \<Rightarrow> bool" where
  "isCounterWord c = (c \<in> set [0x53E5, 0x884C, 0x689D, 0x8A71])"

definition placeholderRegex :: "jstring \<Rightarrow> bool" where
  "placeholderRegex t =
     (let body = (if t \<noteq> [] \<and> hd t = 0x7B2C then tl t else t)
      in length body \<ge> 2 \<and> list_all isNumeral (butlast body) \<and> isCounterWord (last body))"

text \<open>The class removed from a line before \<open>placeholderRegex\<close> is tested.\<close>

definition isPlaceholderNoise :: "nat \<Rightarrow> bool" where
  "isPlaceholderNoise c =
     (isWhiteSpace c \<or> c \<in> set [0x3002, 0xFF0E, 0xFF0C, 0x2C, 0x3001, 0x2E, 0x21, 0xFF01, 0x3F,
        0xFF1F, 0x3A, 0xFF1A, 0x3B, 0xFF1B, 0x2D, 0xFF08, 0xFF09, 0x28, 0x29, 0x3010, 0x3011,
        0x5B, 0x5D, 0x300C, 0x300D, 0x300E, 0x300F, 0x3C, 0x3E, 0x300A, 0x300B, 0x3008, 0x3009])"

text \<open>The class \<open>normalizeForComparison\<close> removes, after the white space.\<close>

definition isComparisonNoise :: "nat \<Rightarrow> bool" where
  "isComparisonNoise c =
     (c \<in> set [0xFF0C, 0x2C, 0x3002, 0xFF0E, 0x2E, 0x3001, 0xFF01, 0x21, 0xFF1F, 0x3F, 0x2D,
        0x2014, 0x3A, 0xFF1A, 0x3B, 0xFF1B, 0x22, 0x201C, 0x201D, 0x2018, 0x2019, 0x27, 0xFF08,
        0xFF09, 0x28, 0x29, 0x300A, 0x300B, 0x3008, 0x3009, 0x3010, 0x3011, 0x5B, 0x5D, 0x7B,
        0x7D, 0x3C, 0x3E, 0x300C, 0x300D, 0x300E, 0x300F, 0xB7, 0x2022, 0x2026, 0x7E, 0x2014,
        0x2010, 0xFE63, 0xFE58, 0xFE63, 0xFE56, 0xFE57, 0xFE54, 0xFE55])"

definition normalizeForComparison :: "jstring \<Rightarrow> jstring" where
  "normalizeForComparison t =
     filter (\<lambda>c. \<not> isComparisonNoise c) (filter (\<lambda>c. \<not> isWhiteSpace c) t)"

text \<open>The two nested loops of \<open>hasMeaningfulOverlap\<close>: sizes from the largest down to 3.\<close>

definition snippetFound :: "jstring \<Rightarrow> jstring \<Rightarrow> bool" where
  "snippetFound normalizedLine normalizedScript =
     list_ex (\<lambda>size.
        list_ex (\<lambda>start. str_includes normalizedScript (take size (drop start normalizedLine)))
          [0 ..< length normalizedLine - size + 1])
       (rev [3 ..< min 8 (length normalizedLine) + 1])"

definition hasMeaningfulOverlap :: "jstring \<Rightarrow> jstring \<Rightarrow> bool" where
  "hasMeaningfulOverlap ln normalizedScript =
     (let normalizedLine = normalizeForComparison ln
      in if normalizedLine = [] then False
         else if str_includes normalizedScript normalizedLine then True
         else if length normalizedLine \<le> 3 then str_includes normalizedScript normalizedLine
         else snippetFound normalizedLine normalizedScript)"

text \<open>The error codes of the server; \<open>OTHER_ERROR\<close> stands for every other thrown error.\<close>

datatype error_code =
  INVALID_LLM_OUTPUT | PLACEHOLDER_OUTPUT | INVALID_JSON | MISSING_OUTPUT | EMPTY_OUTPUT
  | OTHER_ERROR

definition fallbackCodes :: "error_code list" where
  "fallbackCodes =
     [INVALID_LLM_OUTPUT, PLACEHOLDER_OUTPUT, INVALID_JSON, MISSING_OUTPUT, EMPTY_OUTPUT]"

definition onlyPlaceholders :: "line list \<Rightarrow> bool" where
  "onlyPlaceholders cleaned =
     (cleaned \<noteq> []
      \<and> list_all (\<lambda>l. placeholderRegex (trim (filter (\<lambda>c. \<not> isPlaceholderNoise c) (ltext l))))
           cleaned)"

definition invalidLines :: "(nat \<Rightarrow> bool) \<Rightarrow> line list \<Rightarrow> jstring \<Rightarrow> line list" where
  "invalidLines ps cleaned normalizedSource =
     filter (\<lambda>l. let stripped = trim (removeCodePoints ps (ltext l))
                 in if stripped = [] then False
                    else \<not> hasMeaningfulOverlap stripped normalizedSource)
       cleaned"

definition sanitizeModelLines ::
  "(nat \<Rightarrow> bool) \<Rightarrow> raw_entry list \<Rightarrow> jstring \<Rightarrow> error_code + line list" where
  "sanitizeModelLines ps parsed sourceText =
     (let normalized = normalizeScriptLines ps parsed False;
          cleaned = enforceLineLengths normalized MAX_LINE_LENGTH
      in if cleaned = [] then Inl EMPTY_OUTPUT
         else if onlyPlaceholders cleaned then Inl PLACEHOLDER_OUTPUT
         else if invalidLines ps cleaned (normalizeForComparison sourceText) \<noteq> []
         then Inl INVALID_LLM_OUTPUT
         else Inr cleaned)"

subsection \<open>One chunk\<close>

text \<open>
  What the request for one chunk comes to. The service and the JSON decoder are outside
  the repository, so the reply is taken after them: the request throws (an error whose
  code is none of the server's five), the reply holds no output text, the text is rejected by
  \<open>parseJsonArrayLoose\<close>, it decodes to a value that is no array, or it decodes to an
  array of elements.
\<close>

datatype service_reply =
  RequestFails | NoOutputText | NotJson | NotAnArray | JsonArray "raw_entry list"

fun parseChunk :: "(nat \<Rightarrow> bool) \<Rightarrow> service_reply \<Rightarrow> jstring \<Rightarrow> error_code + line list" where
  "parseChunk ps RequestFails chunkText = Inl OTHER_ERROR"
| "parseChunk ps NoOutputText chunkText = Inl MISSING_OUTPUT"
| "parseChunk ps NotJson chunkText = Inl INVALID_JSON"
| "parseChunk ps NotAnArray chunkText = Inl INVALID_JSON"
| "parseChunk ps (JsonArray parsed) chunkText = sanitizeModelLines ps parsed chunkText"

subsection \<open>The whole script\<close>

text \<open>The lines a rejected chunk contributes.\<close>

definition fallbackLines :: "(nat \<Rightarrow> bool) \<Rightarrow> jstring \<Rightarrow> line list" where
  "fallbackLines ps chunkText =
     enforceLineLengths
       (normalizeScriptLines ps (map toEntry (fallbackSegmentScript chunkText)) False)
       MAX_LINE_LENGTH"

text \<open>
  The \<open>for\<close> loop of \<open>parseScriptWithOpenAI\<close> from chunk \<open>index\<close> on: \<open>service index chunk\<close>
  is the reply to the request for that chunk. An error outside \<open>fallbackCodes\<close> is thrown
  on.
\<close>

fun parseLoop ::
  "(nat \<Rightarrow> bool) \<Rightarrow> (nat \<Rightarrow> jstring \<Rightarrow> service_reply) \<Rightarrow> nat \<Rightarrow> line list \<Rightarrow> jstring list
   \<Rightarrow> error_code + line list" where
  "parseLoop ps service index combined [] = Inr combined"
| "parseLoop ps service index combined (chunkText # rest) =
     (case parseChunk ps (service index chunkText) chunkText of
        Inr parsedLines \<Rightarrow> parseLoop ps service (index + 1) (combined @ parsedLines) rest
      | Inl code \<Rightarrow>
          if code \<in> set fallbackCodes
          then parseLoop ps service (index + 1) (combined @ fallbackLines ps chunkText) rest
          else Inl code)"

definition parseScriptWithOpenAI ::
  "(nat \<Rightarrow> bool) \<Rightarrow> (nat \<Rightarrow> jstring \<Rightarrow> service_reply) \<Rightarrow> jstring \<Rightarrow> error_code + line list" where
  "parseScriptWithOpenAI ps service rawText =
     (case chunkScript rawText MAX_CHUNK_LENGTH of
        None \<Rightarrow> Inl OTHER_ERROR
      | Some chunks \<Rightarrow>
          (case parseLoop ps service 0 [] chunks of
             Inl code \<Rightarrow> Inl code
           | Inr combined \<Rightarrow>
               if combined = [] then Inl EMPTY_OUTPUT
               else Inr (enforceLineLengths combined MAX_LINE_LENGTH)))"

section \<open>Session store and broadcast\<close>

text \<open>
  The numbers \<open>currentIndex\<close> can hold: an integer, or \<open>NaN\<close>. (Fractions and infinities
  are outside the model.) A comparison with \<open>NaN\<close> is false and arithmetic on it gives
  \<open>NaN\<close>; \<open>!==\<close> on \<open>NaN\<close> is true.
\<close>

datatype jsnum = Num int | NaN

fun js_ge :: "jsnum \<Rightarrow> int \<Rightarrow> bool" where
  "js_ge (Num a) b = (a \<ge> b)"
| "js_ge NaN b = False"

fun js_gt :: "jsnum \<Rightarrow> int \<Rightarrow> bool" where
  "js_gt (Num a) b = (a > b)"
| "js_gt NaN b = False"

fun js_add :: "jsnum \<Rightarrow> int \<Rightarrow> jsnum" where
  "js_add (Num a) b = Num (a + b)"
| "js_add NaN b = NaN"

fun js_max :: "jsnum \<Rightarrow> int \<Rightarrow> jsnum" where
  "js_max (Num a) b = Num (max a b)"
| "js_max NaN b = NaN"

fun js_min :: "jsnum \<Rightarrow> int \<Rightarrow> jsnum" where
  "js_min (Num a) b = Num (min a b)"
| "js_min NaN b = NaN"

fun js_differs :: "jsnum \<Rightarrow> jsnum \<Rightarrow> bool" where
  "js_differs (Num a) (Num b) = (a \<noteq> b)"
| "js_differs _ _ = True"

record session =
  sessionId :: jstring
  lines :: "line list"
  currentIndex :: jsnum
  displayEnabled :: bool
  createdAt :: nat

text \<open>\<open>ensureSession\<close>: the stored session, or a new one; \<open>now\<close> is \<open>Date.now()\<close>.\<close>

definition ensureSession :: "session option \<Rightarrow> jstring \<Rightarrow> nat \<Rightarrow> session" where
  "ensureSession stored sid now =
     (case stored of
        Some s \<Rightarrow> s
      | None \<Rightarrow> \<lparr>sessionId = sid, lines = [], currentIndex = Num 0, displayEnabled = True,
                  createdAt = now\<rparr>)"

definition ensureSessionLines :: "(nat \<Rightarrow> bool) \<Rightarrow> session \<Rightarrow> session" where
  "ensureSessionLines ps s = s\<lparr>lines := normalizeScriptLines ps (map toEntry (lines s)) True\<rparr>"

text \<open>
  \<open>if (session.currentIndex >= lines.length) session.currentIndex =
  Math.max(lines.length - 1, 0)\<close>.
\<close>

definition clampIndex :: "session \<Rightarrow> session" where
  "clampIndex s =
     (if js_ge (currentIndex s) (int (length (lines s)))
      then s\<lparr>currentIndex := Num (max (int (length (lines s)) - 1) 0)\<rparr>
      else s)"

record control_payload =
  c_lines :: "line list"
  c_currentIndex :: jsnum
  c_displayEnabled :: bool

record viewer_payload =
  v_line :: "line option"
  v_text :: jstring
  v_displayEnabled :: bool

datatype emitted = ControlUpdate control_payload | ViewerUpdate viewer_payload

text \<open>\<open>lines[session.currentIndex] || null\<close>: an index outside the array reads \<open>undefined\<close>.\<close>

fun lineAt :: "line list \<Rightarrow> jsnum \<Rightarrow> line option" where
  "lineAt ls (Num i) = (if 0 \<le> i \<and> i < int (length ls) then Some (ls ! nat i) else None)"
| "lineAt ls NaN = None"

definition broadcastControlState :: "(nat \<Rightarrow> bool) \<Rightarrow> session \<Rightarrow> session \<times> emitted" where
  "broadcastControlState ps s0 =
     (let s = clampIndex (ensureSessionLines ps s0)
      in (s, ControlUpdate \<lparr>c_lines = lines s, c_currentIndex = currentIndex s,
                            c_displayEnabled = displayEnabled s\<rparr>))"

text \<open>The object sent to the viewers, and returned by the viewer endpoint.\<close>

definition viewerPayload :: "session \<Rightarrow> viewer_payload" where
  "viewerPayload s =
     (let activeLine = (if displayEnabled s \<and> lines s \<noteq> [] then lineAt (lines s) (currentIndex s)
                        else None)
      in \<lparr>v_line = (if displayEnabled s then activeLine else None),
          v_text = (case activeLine of
                      Some l \<Rightarrow> if displayEnabled s
                                then (if ltype l = DIRECTION then [] else ltext l) else []
                    | None \<Rightarrow> []),
          v_displayEnabled = displayEnabled s\<rparr>)"

definition broadcastViewerState :: "(nat \<Rightarrow> bool) \<Rightarrow> session \<Rightarrow> session \<times> emitted" where
  "broadcastViewerState ps s0 =
     (let s = clampIndex (ensureSessionLines ps s0) in (s, ViewerUpdate (viewerPayload s)))"

text \<open>The two broadcasts that end a handler.\<close>

definition broadcastBoth :: "(nat \<Rightarrow> bool) \<Rightarrow> session \<Rightarrow> session \<times> emitted list" where
  "broadcastBoth ps s0 =
     (let (s1, e1) = broadcastControlState ps s0;
          (s2, e2) = broadcastViewerState ps s1
      in (s2, [e1, e2]))"

text \<open>\<open>GET /api/session/:sessionId/viewer\<close>; \<open>None\<close> is the 404 answer.\<close>

definition getViewer :: "(nat \<Rightarrow> bool) \<Rightarrow> session option \<Rightarrow> (session \<times> viewer_payload) option" where
  "getViewer ps stored =
     (case stored of
        None \<Rightarrow> None
      | Some s0 \<Rightarrow> (let s = clampIndex (ensureSessionLines ps s0) in Some (s, viewerPayload s)))"

subsection \<open>Socket handlers\<close>

text \<open>
  Each handler is given the session \<open>getSession\<close> found (a handler returns at once when
  there is none). An index argument is \<open>Some i\<close> when \<open>Number.isInteger\<close> holds of it, a
  text or type argument \<open>Some s\<close> when it is a string.
\<close>

definition validIndex :: "session \<Rightarrow> int option \<Rightarrow> bool" where
  "validIndex s index =
     (case index of None \<Rightarrow> False | Some i \<Rightarrow> 0 \<le> i \<and> i < int (length (lines s)))"

definition setCurrentIndex :: "(nat \<Rightarrow> bool) \<Rightarrow> session \<Rightarrow> int option \<Rightarrow> session \<times> emitted list" where
  "setCurrentIndex ps s index =
     (if validIndex s index then broadcastBoth ps (s\<lparr>currentIndex := Num (the index)\<rparr>)
      else (s, []))"

text \<open>
  The \<open>delta\<close> of \<open>shiftIndex\<close>, which the handler does not check: an integer;
  a falsy value (absent, \<open>null\<close>, \<open>0\<close>), for which \<open>delta || 0\<close> is \<open>0\<close>; or a plain
  object such as \<open>{}\<close>, for which \<open>currentIndex + delta\<close> is the string of the index
  followed by \<open>[object Object]\<close>, which \<open>Math.max\<close> converts to \<open>NaN\<close>.
\<close>

datatype delta_arg = DeltaInt int | DeltaFalsy | DeltaObject

fun shifted :: "jsnum \<Rightarrow> delta_arg \<Rightarrow> jsnum" where
  "shifted ci (DeltaInt d) = js_max (js_add ci d) 0"
| "shifted ci DeltaFalsy = js_max (js_add ci 0) 0"
| "shifted ci DeltaObject = NaN"

definition shiftIndex :: "(nat \<Rightarrow> bool) \<Rightarrow> session \<Rightarrow> delta_arg \<Rightarrow> session \<times> emitted list" where
  "shiftIndex ps s delta =
     (let nextIndex = js_min (shifted (currentIndex s) delta)
                        (max (int (length (lines s)) - 1) 0)
      in if js_differs nextIndex (currentIndex s)
         then broadcastBoth ps (s\<lparr>currentIndex := nextIndex\<rparr>)
         else (s, []))"

definition setDisplay :: "(nat \<Rightarrow> bool) \<Rightarrow> session \<Rightarrow> bool \<Rightarrow> session \<times> emitted list" where
  "setDisplay ps s enabled = broadcastBoth ps (s\<lparr>displayEnabled := enabled\<rparr>)"

definition updateLine ::
  "(nat \<Rightarrow> bool) \<Rightarrow> session \<Rightarrow> int option \<Rightarrow> jstring option \<Rightarrow> jstring option
   \<Rightarrow> session \<times> emitted list" where
  "updateLine ps s index newText newType =
     (case newText of
        None \<Rightarrow> (s, [])
      | Some t \<Rightarrow>
          if validIndex s index
          then (let i = nat (the index);
                    existingRaw = lines s ! i;
                    sanitized = sanitizeLineText t;
                    nextType = (case clampLineType newType of
                                  Some explicitType \<Rightarrow> explicitType
                                | None \<Rightarrow>
                                    (case clampLineType (Some (ltype existingRaw)) of
                                       Some previousType \<Rightarrow> previousType
                                     | None \<Rightarrow> DIALOGUE))
                in broadcastBoth ps
                     (s\<lparr>lines := (lines s)[i := existingRaw\<lparr>ltext := sanitized, ltype := nextType\<rparr>]\<rparr>))
          else (s, []))"

definition setLineType ::
  "(nat \<Rightarrow> bool) \<Rightarrow> session \<Rightarrow> int option \<Rightarrow> jstring option \<Rightarrow> session \<times> emitted list" where
  "setLineType ps s index newType =
     (case clampLineType newType of
        None \<Rightarrow> (s, [])
      | Some normalizedType \<Rightarrow>
          if validIndex s index
          then (let i = nat (the index);
                    existing = lines s ! i
                in broadcastBoth ps
                     (s\<lparr>lines := (lines s)[i := \<lparr>ltext = sanitizeLineText (ltext existing),
                                                 ltype = normalizedType\<rparr>]\<rparr>))
          else (s, []))"

definition splitLine ::
  "(nat \<Rightarrow> bool) \<Rightarrow> session \<Rightarrow> int option \<Rightarrow> jstring option \<Rightarrow> jstring option
   \<Rightarrow> session \<times> emitted list" where
  "splitLine ps s index beforeText afterText =
     (case (beforeText, afterText) of
        (Some bt, Some at) \<Rightarrow>
          if validIndex s index
          then (let i = nat (the index);
                    before = sanitizeLineText bt;
                    after = sanitizeLineText at
                in if before = [] \<or> after = [] then (s, [])
                   else (let existing = lines s ! i;
                             ty = (case clampLineType (Some (ltype existing)) of
                                     Some t \<Rightarrow> t | None \<Rightarrow> DIALOGUE);
                             spliced = take i (lines s)
                                       @ [\<lparr>ltext = before, ltype = ty\<rparr>, \<lparr>ltext = after, ltype = ty\<rparr>]
                                       @ drop (i + 1) (lines s);
                             ci = (if js_gt (currentIndex s) (the index)
                                   then js_add (currentIndex s) 1 else currentIndex s)
                         in broadcastBoth ps (s\<lparr>lines := spliced, currentIndex := ci\<rparr>)))
          else (s, [])
      | _ \<Rightarrow> (s, []))"

definition insertLineAfter ::
  "(nat \<Rightarrow> bool) \<Rightarrow> session \<Rightarrow> int option \<Rightarrow> jstring option \<Rightarrow> session \<times> emitted list" where
  "insertLineAfter ps s index newType =
     (if validIndex s index
      then (let i = nat (the index);
                existing = lines s ! i;
                baseType = (case clampLineType newType of
                              Some t \<Rightarrow> t
                            | None \<Rightarrow>
                                (case clampLineType (Some (ltype existing)) of
                                   Some t \<Rightarrow> t | None \<Rightarrow> DIALOGUE));
                spliced = take (i + 1) (lines s) @ [\<lparr>ltext = [], ltype = baseType\<rparr>]
                          @ drop (i + 1) (lines s);
                ci = (if js_gt (currentIndex s) (the index)
                      then js_add (currentIndex s) 1 else currentIndex s)
            in broadcastBoth ps (s\<lparr>lines := spliced, currentIndex := ci\<rparr>))
      else (s, []))"

definition deleteLine :: "(nat \<Rightarrow> bool) \<Rightarrow> session \<Rightarrow> int option \<Rightarrow> session \<times> emitted list" where
  "deleteLine ps s index =
     (if validIndex s index
      then (let i = nat (the index);
                spliced = take i (lines s) @ drop (i + 1) (lines s);
                ci = (if js_ge (currentIndex s) (int (length spliced))
                      then Num (max (int (length spliced) - 1) 0)
                      else if js_gt (currentIndex s) (the index)
                      then js_add (currentIndex s) (-1)
                      else currentIndex s)
            in broadcastBoth ps (s\<lparr>lines := spliced, currentIndex := ci\<rparr>))
      else (s, []))"

subsection \<open>HTTP handlers that change the lines\<close>

text \<open>\<open>PUT /api/session/:sessionId/lines\<close>, once the body is an array and the session exists.\<close>

definition putLines :: "(nat \<Rightarrow> bool) \<Rightarrow> session \<Rightarrow> raw_entry list \<Rightarrow> session \<times> emitted list" where
  "putLines ps s newLines =
     broadcastBoth ps (clampIndex (s\<lparr>lines := normalizeScriptLines ps newLines True\<rparr>))"

text \<open>
  \<open>POST /api/session/:sessionId/script/upload\<close> from \<open>ensureSession\<close> on, that is with an
  API key and a file: the answer is the JSON of a success (with or without the warning
  of the whole-script fallback) or the error 500.
\<close>

datatype upload_response =
  Uploaded "line list" jsnum bool
  | UploadedWithWarning "line list" jsnum bool
  | UploadFailed error_code

definition commitLines ::
  "(nat \<Rightarrow> bool) \<Rightarrow> session \<Rightarrow> line list \<Rightarrow> session \<times> emitted list" where
  "commitLines ps s newLines =
     (let (s1, out) = broadcastBoth ps (s\<lparr>lines := newLines, currentIndex := Num 0,
                                           displayEnabled := True\<rparr>)
      in (ensureSessionLines ps s1, out))"

definition uploadScript ::
  "(nat \<Rightarrow> bool) \<Rightarrow> codec \<Rightarrow> (nat \<Rightarrow> jstring \<Rightarrow> service_reply) \<Rightarrow> session \<Rightarrow> nat list
   \<Rightarrow> session \<times> emitted list \<times> upload_response" where
  "uploadScript ps lib service s buffer =
     (let rawText = normalizePunctuation (decodeScriptBuffer lib buffer)
      in case parseScriptWithOpenAI ps service rawText of
           Inr newLines \<Rightarrow>
             (let (s1, out) = commitLines ps s newLines
              in (s1, out, Uploaded (lines s1) (currentIndex s1) (displayEnabled s1)))
         | Inl code \<Rightarrow>
             if code \<in> set fallbackCodes
                \<and> enforceLineLengths
                     (normalizeScriptLines ps (map toEntry (fallbackSegmentScript rawText)) False)
                     MAX_LINE_LENGTH \<noteq> []
             then (let (s1, out) = commitLines ps s
                                     (enforceLineLengths
                                        (normalizeScriptLines ps
                                           (map toEntry (fallbackSegmentScript rawText)) False)
                                        MAX_LINE_LENGTH)
                   in (s1, out, UploadedWithWarning (lines s1) (currentIndex s1) (displayEnabled s1)))
             else (s, [], UploadFailed code))"

subsection \<open>The edit operations as one step\<close>

text \<open>An edit request with its arguments, and the handler it reaches.\<close>

datatype edit =
  SetCurrentIndex "int option"
  | ShiftIndex delta_arg
  | SetDisplay bool
  | UpdateLine "int option" "jstring option" "jstring option"
  | SetLineType "int option" "jstring option"
  | SplitLine "int option" "jstring option" "jstring option"
  | InsertLineAfter "int option" "jstring option"
  | DeleteLine "int option"
  | PutLines "raw_entry list"

fun applyEdit :: "(nat \<Rightarrow> bool) \<Rightarrow> session \<Rightarrow> edit \<Rightarrow> session \<times> emitted list" where
  "applyEdit ps s (SetCurrentIndex index) = setCurrentIndex ps s index"
| "applyEdit ps s (ShiftIndex delta) = shiftIndex ps s delta"
| "applyEdit ps s (SetDisplay enabled) = setDisplay ps s enabled"
| "applyEdit ps s (UpdateLine index newText newType) = updateLine ps s index newText newType"
| "applyEdit ps s (SetLineType index newType) = setLineType ps s index newType"
| "applyEdit ps s (SplitLine index beforeText afterText) = splitLine ps s index beforeText afterText"
| "applyEdit ps s (InsertLineAfter index newType) = insertLineAfter ps s index newType"
| "applyEdit ps s (DeleteLine index) = deleteLine ps s index"
| "applyEdit ps s (PutLines newLines) = putLines ps s newLines"

section \<open>Notions the properties are stated with\<close>

subsection \<open>Decoder\<close>

text \<open>The number of code points of a text that satisfy a predicate.\<close>

definition countOf :: "(nat \<Rightarrow> bool) \<Rightarrow> jstring \<Rightarrow> int" where
  "countOf P t = int (length (filter P (codePoints t)))"

definition isPrintableAscii :: "nat \<Rightarrow> bool" where
  "isPrintableAscii c = (0x20 \<le> c \<and> c \<le> 0x7E)"

definition isLatinSupplement :: "nat \<Rightarrow> bool" where
  "isLatinSupplement c = (0x80 \<le> c \<and> c \<le> 0xFF)"

definition isReplacement :: "nat \<Rightarrow> bool" where
  "isReplacement c = (c = 0xFFFD)"

text \<open>The score without the bonus: what both the specification and the code count.\<close>

definition baseScore :: "jstring \<Rightarrow> int" where
  "baseScore t =
     6 * countOf isHan t + 2 * countOf isPrintableAscii t
     - 3 * countOf isLatinSupplement t - 20 * countOf isReplacement t"

text \<open>
  The score in the specification's words: the bonus goes to the whole UTF family.
\<close>

definition utfFamily :: "string \<Rightarrow> bool" where
  "utfFamily encoding =
     (encoding \<in> set [''utf8'', ''utf16le'', ''utf16be'', ''utf32le'', ''utf32be''])"

definition specScore :: "jstring \<Rightarrow> string \<Rightarrow> int" where
  "specScore t encoding = baseScore t + (if utfFamily encoding then 5 else 0)"

text \<open>The score as the code gives the bonus: to the labels of UTF-8 only.\<close>

definition utf8Label :: "string \<Rightarrow> bool" where
  "utf8Label encoding = (encoding = ''utf8'' \<or> encoding = ''utf-8'')"

definition utf8Score :: "jstring \<Rightarrow> string \<Rightarrow> int" where
  "utf8Score t encoding = baseScore t + (if utf8Label encoding then 5 else 0)"

text \<open>
  The candidates that count: every encoding of the list whose decoding succeeds and is
  not empty, with its text, and the score of one.
\<close>

definition nonEmptyDecodes ::
  "codec \<Rightarrow> nat list \<Rightarrow> string list \<Rightarrow> (jstring \<times> string) list" where
  "nonEmptyDecodes lib buffer encs =
     concat (map (\<lambda>enc. case decodeWithEncoding lib buffer enc of
                           None \<Rightarrow> []
                         | Some t \<Rightarrow> if t = [] then [] else [(t, enc)]) encs)"

definition candidateScore :: "jstring \<times> string \<Rightarrow> score" where
  "candidateScore c = scoreDecodedText (analyzeTextStats (fst c)) (snd c)"

text \<open>
  The state of the candidate loop is the best of the candidates seen: none yet, or a
  candidate that no seen candidate outscores.
\<close>

definition bestOf :: "(jstring \<times> string) list \<Rightarrow> jstring option \<times> score \<Rightarrow> bool" where
  "bestOf seen best =
     (if seen = [] then best = (None, NegInfinity)
      else list_ex (\<lambda>c. best = (Some (fst c), candidateScore c)
                         \<and> list_all (\<lambda>c'. \<not> scoreGreater (candidateScore c') (candidateScore c)) seen)
             seen)"

text \<open>
  The decoder selects the highest-scoring non-empty decode: its result is the text of a
  candidate that no candidate outscores, or the plain UTF-8 decoding when no candidate
  decodes to a non-empty text.
\<close>

definition selectsBest :: "codec \<Rightarrow> nat list \<Rightarrow> bool" where
  "selectsBest lib buffer =
     (let decodes = nonEmptyDecodes lib buffer (candidateOrder buffer)
      in if decodes = []
         then decodeScriptBuffer lib buffer = stripBom (bufferToString lib ''utf8'' buffer)
         else list_ex (\<lambda>c. decodeScriptBuffer lib buffer = fst c
                           \<and> list_all (\<lambda>c'. \<not> scoreGreater (candidateScore c') (candidateScore c))
                                decodes)
                decodes)"

text \<open>
  A codec for the examples, whose buffers hold ASCII bytes: UTF-8 and the single-byte and
  CJK code pages read every byte as its character, and UTF-16 reads nothing.
\<close>

definition oneByteCodec :: codec where
  "oneByteCodec =
     \<lparr>bufferToString = (\<lambda>enc b. if enc = ''utf8'' then b else []),
      iconvDecode = (\<lambda>enc b. if enc = ''utf16-be'' then Some [] else Some b)\<rparr>"

subsection \<open>Sessions\<close>

text \<open>A session showing one direction line with the given text.\<close>

definition directionSession :: "jstring \<Rightarrow> session" where
  "directionSession t =
     \<lparr>sessionId = ascii ''default'', lines = [\<lparr>ltext = t, ltype = DIRECTION\<rparr>],
      currentIndex = Num 0, displayEnabled = True, createdAt = 0\<rparr>"

text \<open>A session of two dialogue lines, the first one current.\<close>

definition twoLineSession :: session where
  "twoLineSession =
     \<lparr>sessionId = ascii ''default'',
      lines = [\<lparr>ltext = ascii ''one'', ltype = DIALOGUE\<rparr>, \<lparr>ltext = ascii ''two'', ltype = DIALOGUE\<rparr>],
      currentIndex = Num 0, displayEnabled = True, createdAt = 0\<rparr>"

text \<open>
  The session invariant of the specification: \<open>currentIndex\<close> is an index of \<open>lines\<close>, or
  \<open>0\<close> when there is no line.
\<close>

definition indexInRange :: "session \<Rightarrow> bool" where
  "indexInRange s =
     (case currentIndex s of
        Num i \<Rightarrow> if lines s = [] then i = 0 else 0 \<le> i \<and> i < int (length (lines s))
      | NaN \<Rightarrow> False)"

subsection \<open>Uploads\<close>


definition uploadSucceeded :: "upload_response \<Rightarrow> bool" where
  "uploadSucceeded r = (case r of UploadFailed code \<Rightarrow> False | _ \<Rightarrow> True)"

text \<open>
  The class \<open>[\p{P}\p{S}]\<close> on the characters of the examples: the ASCII punctuation and
  symbols, and the CJK and full-width marks the server's patterns name. (The examples
  hold no other character than these, letters, digits, blanks and ideographs.)
\<close>

definition samplePS :: "nat \<Rightarrow> bool" where
  "samplePS c =
     ((0x21 \<le> c \<and> c \<le> 0x2F) \<or> (0x3A \<le> c \<and> c \<le> 0x40) \<or> (0x5B \<le> c \<and> c \<le> 0x60)
      \<or> (0x7B \<le> c \<and> c \<le> 0x7E)
      \<or> c \<in> set [0x2014, 0x2018, 0x2019, 0x201C, 0x201D, 0x2026, 0x3001, 0x3002, 0x3008,
                  0x3009, 0x300A, 0x300B, 0x300C, 0x300D, 0x300E, 0x300F, 0x3010, 0x3011,
                  0xFF01, 0xFF08, 0xFF09, 0xFF0C, 0xFF0E, 0xFF1A, 0xFF1B, 0xFF1F, 0xFF3B, 0xFF3D])"

text \<open>A session whose operator has hidden the display, the second line current.\<close>

definition hiddenSession :: session where
  "hiddenSession = twoLineSession\<lparr>currentIndex := Num 1, displayEnabled := False\<rparr>"


subsection \<open>Segmentation runs\<close>






subsection \<open>Classifier\<close>








subsection \<open>Stored lines\<close>

definition validType :: "jstring \<Rightarrow> bool" where
  "validType ty = (ty = DIALOGUE \<or> ty = DIRECTION)"

text \<open>The control characters: C0, delete and C1.\<close>

definition isControl :: "nat \<Rightarrow> bool" where
  "isControl c = (c < 0x20 \<or> (0x7F \<le> c \<and> c \<le> 0x9F))"

text \<open>The invariant of a line in the specification's words.\<close>

definition specLineOk :: "line \<Rightarrow> bool" where
  "specLineOk l = (list_all (\<lambda>c. \<not> isControl c) (ltext l) \<and> validType (ltype l))"

text \<open>What the code keeps: no line feed in the text, and one of the two types.\<close>

definition lineOk :: "line \<Rightarrow> bool" where
  "lineOk l = (0x0A \<notin> set (ltext l) \<and> validType (ltype l))"

subsection \<open>Line length\<close>

text \<open>
  The content of a text: its characters that are neither white space nor clause marks.
\<close>

definition isContent :: "nat \<Rightarrow> bool" where
  "isContent c = (\<not> isWhiteSpace c \<and> \<not> isClauseEnd c)"

definition contentOf :: "jstring \<Rightarrow> jstring" where
  "contentOf t = filter isContent t"

text \<open>The visible characters of a text: those that are not white space.\<close>

definition visible :: "jstring \<Rightarrow> jstring" where
  "visible t = filter (\<lambda>c. \<not> isWhiteSpace c) t"

text \<open>
  A text without the marks \<open>P\<close> that do not directly follow a character outside \<open>P\<close>;
  \<open>after\<close> tells whether the character before was outside \<open>P\<close>.
\<close>

fun keepMatched :: "(nat \<Rightarrow> bool) \<Rightarrow> bool \<Rightarrow> jstring \<Rightarrow> jstring" where
  "keepMatched P after [] = []"
| "keepMatched P after (c # cs) =
     (if P c then (if after then c # keepMatched P False cs else keepMatched P False cs)
      else c # keepMatched P True cs)"

text \<open>
  The text that the clauses of a text make up: a text of clause marks only is one clause;
  in any other text a clause mark that does not directly follow a character other than a
  clause mark belongs to no clause.
\<close>

definition clauseText :: "jstring \<Rightarrow> jstring" where
  "clauseText t = (if list_all isClauseEnd t then t else keepMatched isClauseEnd False t)"







section \<open>Shared lemmas\<close>





lemma sublist_trim: "sublist (trim t) t"
proof -
  have "sublist (rev (dropWhile isWhiteSpace (rev (dropWhile isWhiteSpace t)))) (dropWhile isWhiteSpace t)"
    by (simp add: sublist_rev_left)
  then show ?thesis
    unfolding trim_def trimEnd_def
    by (meson sublist_dropWhile sublist_order.order_trans)
qed

lemma sublist_dropTrailing: "sublist (dropTrailing P t) t"
  unfolding dropTrailing_def by (simp add: sublist_rev_left)


lemma replaceNewlines_no_lf: "0x0A \<notin> set (replaceNewlines t)"
  by (induction t rule: replaceNewlines.induct) auto

lemma set_trim: "set (trim t) \<subseteq> set t"
  by (rule set_mono_sublist) (rule sublist_trim)

lemma sanitize_no_lf: "0x0A \<notin> set (sanitizeLineText t)"
  unfolding sanitizeLineText_def using replaceNewlines_no_lf set_trim by blast
























section \<open>Viewer projection\<close>

lemma sanitize_keeps_plain:
  "sanitizeLineText [0x71C8, 0x6697] = [0x71C8, 0x6697]"
  "sanitizeLineText [0x9F13, 0x8072] = [0x9F13, 0x8072]"
  by (simp_all add: sanitizeLineText_def trim_def trimEnd_def isWhiteSpace_def)

lemma directionSession_normalized:
  "t \<noteq> [] \<Longrightarrow> sanitizeLineText t = t
   \<Longrightarrow> trim (dropTrailing isStrayOpener (dropWhile isStrayCloser t)) = t
   \<Longrightarrow> clampIndex (ensureSessionLines ps (directionSession t)) = directionSession t"
  by (simp add: clampIndex_def ensureSessionLines_def directionSession_def
      normalizeScriptLines_def normalizeEntry_def toEntry_def clampLineType_def toLowerCase_def
      DIRECTION_def DIALOGUE_def ascii_def expandStageDirectionSegments_def normalizeItem_def
      pushedType_def Let_def)

text \<open>
  C1 on the code. With the display enabled and a direction line current, the object sent
  to the viewers (and the one the viewer endpoint returns) blanks the field \<open>text\<close> but
  holds the whole line under \<open>line\<close>, its text included: the projection of the line
  U+71C8 U+6697 carries that text, and changing only the text of the direction line
  changes the projection.
\<close>

theorem C1_direction_text_reaches_viewers:
  "snd (broadcastViewerState ps (directionSession [0x71C8, 0x6697]))
     = ViewerUpdate \<lparr>v_line = Some \<lparr>ltext = [0x71C8, 0x6697], ltype = DIRECTION\<rparr>,
                      v_text = [], v_displayEnabled = True\<rparr>
   \<and> map_option snd (getViewer ps (Some (directionSession [0x71C8, 0x6697])))
     = Some \<lparr>v_line = Some \<lparr>ltext = [0x71C8, 0x6697], ltype = DIRECTION\<rparr>,
             v_text = [], v_displayEnabled = True\<rparr>
   \<and> snd (broadcastViewerState ps (directionSession [0x71C8, 0x6697]))
     \<noteq> snd (broadcastViewerState ps (directionSession [0x9F13, 0x8072]))"
proof -
  have a: "clampIndex (ensureSessionLines ps (directionSession [0x71C8, 0x6697]))
             = directionSession [0x71C8, 0x6697]"
    by (rule directionSession_normalized)
       (simp_all add: sanitize_keeps_plain trim_def trimEnd_def isWhiteSpace_def
          dropTrailing_def isStrayOpener_def isStrayCloser_def)
  have b: "clampIndex (ensureSessionLines ps (directionSession [0x9F13, 0x8072]))
             = directionSession [0x9F13, 0x8072]"
    by (rule directionSession_normalized)
       (simp_all add: sanitize_keeps_plain trim_def trimEnd_def isWhiteSpace_def
          dropTrailing_def isStrayOpener_def isStrayCloser_def)
  show ?thesis
    unfolding broadcastViewerState_def getViewer_def Let_def option.case a b
    by (simp add: viewerPayload_def directionSession_def)
qed

section \<open>Session index\<close>

text \<open>
  C2 on the code. \<open>shiftIndex\<close> does not check its \<open>delta\<close> (every other handler checks
  its index with \<open>Number.isInteger\<close>): on a session of two lines, a \<open>delta\<close> that is a
  plain object makes \<open>currentIndex\<close> \<open>NaN\<close>, which neither broadcast clamps, so the
  index is outside \<open>[0, len(lines)-1]\<close> after the operation.
\<close>

theorem C2_shiftIndex_leaves_range:
  "indexInRange twoLineSession
   \<and> currentIndex (fst (shiftIndex ps twoLineSession DeltaObject)) = NaN
   \<and> \<not> indexInRange (fst (shiftIndex ps twoLineSession DeltaObject))"
proof -
  have "currentIndex (fst (broadcastBoth ps s)) = NaN" if "currentIndex s = NaN" for s
    using that
    by (simp add: broadcastBoth_def broadcastControlState_def broadcastViewerState_def
        clampIndex_def ensureSessionLines_def Let_def)
  then have "currentIndex (fst (shiftIndex ps twoLineSession DeltaObject)) = NaN"
    by (simp add: shiftIndex_def)
  then show ?thesis
    by (simp add: indexInRange_def twoLineSession_def)
qed

section \<open>Line length\<close>








lemma contentOf_Nil [simp]: "contentOf [] = []"
  by (simp add: contentOf_def)

lemma contentOf_append: "contentOf (a @ b) = contentOf a @ contentOf b"
  by (simp add: contentOf_def)

lemma contentOf_concat: "contentOf (concat xs) = concat (map contentOf xs)"
  by (induction xs) (simp_all add: contentOf_append contentOf_def)





















section \<open>Decoder: score and selection\<close>

lemma countChar_fields:
  "hanCount (countChar c st) = hanCount st + (if isHan c then 1 else 0)"
  "asciiCount (countChar c st) = asciiCount st + (if isPrintableAscii c then 1 else 0)"
  "latinSupplementCount (countChar c st)
     = latinSupplementCount st + (if isLatinSupplement c then 1 else 0)"
  "replacementCount (countChar c st) = replacementCount st + (if isReplacement c then 1 else 0)"
  "textLength (countChar c st) = textLength st"
  by (auto simp: countChar_def isHan_def isPrintableAscii_def isLatinSupplement_def
      isReplacement_def)

lemma fold_countChar_han:
  "hanCount (fold countChar cps st) = hanCount st + length (filter isHan cps)"
  by (induction cps arbitrary: st) (simp_all add: countChar_fields)

lemma fold_countChar_ascii:
  "asciiCount (fold countChar cps st) = asciiCount st + length (filter isPrintableAscii cps)"
  by (induction cps arbitrary: st) (simp_all add: countChar_fields)

lemma fold_countChar_latin:
  "latinSupplementCount (fold countChar cps st)
     = latinSupplementCount st + length (filter isLatinSupplement cps)"
  by (induction cps arbitrary: st) (simp_all add: countChar_fields)

lemma fold_countChar_replacement:
  "replacementCount (fold countChar cps st)
     = replacementCount st + length (filter isReplacement cps)"
  by (induction cps arbitrary: st) (simp_all add: countChar_fields)

lemma fold_countChar_length: "textLength (fold countChar cps st) = textLength st"
  by (induction cps arbitrary: st) (simp_all add: countChar_fields)

lemma score_formula:
  "t \<noteq> [] \<Longrightarrow> scoreDecodedText (analyzeTextStats t) encoding = Score (utf8Score t encoding)"
  unfolding scoreDecodedText_def analyzeTextStats_def utf8Score_def baseScore_def countOf_def
    utf8Label_def
  by (simp add: fold_countChar_han fold_countChar_ascii fold_countChar_latin
      fold_countChar_replacement fold_countChar_length)

lemma scoreGreater_irrefl: "\<not> scoreGreater s s"
  by (cases s) simp_all

lemma scoreGreater_trans_not:
  "scoreGreater a b \<Longrightarrow> \<not> scoreGreater c b \<Longrightarrow> \<not> scoreGreater c a"
  by (cases a; cases b; cases c) simp_all

lemma scoreGreater_NegInfinity: "scoreGreater s NegInfinity = (s \<noteq> NegInfinity)"
  by (cases s) simp_all

lemma candidateScore_finite: "fst c \<noteq> [] \<Longrightarrow> candidateScore c \<noteq> NegInfinity"
  by (simp add: candidateScore_def score_formula)

lemma nonEmptyDecodes_snoc:
  "nonEmptyDecodes lib buffer (encs @ [enc]) =
     nonEmptyDecodes lib buffer encs
     @ (case decodeWithEncoding lib buffer enc of
          None \<Rightarrow> [] | Some t \<Rightarrow> if t = [] then [] else [(t, enc)])"
  by (simp add: nonEmptyDecodes_def)

lemma nonEmptyDecodes_nonempty:
  "c \<in> set (nonEmptyDecodes lib buffer encs) \<Longrightarrow> fst c \<noteq> []"
  by (auto simp: nonEmptyDecodes_def split: option.splits if_splits)

lemma bestOf_step:
  assumes inv: "bestOf seen best"
    and t: "t \<noteq> []"
  shows "bestOf (seen @ [(t, enc)])
           (if scoreGreater (candidateScore (t, enc)) (snd best)
            then (Some t, candidateScore (t, enc)) else best)"
proof (cases "seen = []")
  case True
  with inv have "best = (None, NegInfinity)" by (simp add: bestOf_def)
  with True t show ?thesis
    by (simp add: bestOf_def scoreGreater_NegInfinity candidateScore_finite scoreGreater_irrefl)
next
  case False
  with inv obtain c where c: "c \<in> set seen" "best = (Some (fst c), candidateScore c)"
    "list_all (\<lambda>c'. \<not> scoreGreater (candidateScore c') (candidateScore c)) seen"
    by (auto simp: bestOf_def list_ex_iff)
  show ?thesis
  proof (cases "scoreGreater (candidateScore (t, enc)) (snd best)")
    case True
    have "\<not> scoreGreater (candidateScore c') (candidateScore (t, enc))"
      if "c' \<in> set seen" for c'
    proof -
      from that c(3) have "\<not> scoreGreater (candidateScore c') (candidateScore c)"
        by (simp add: list_all_iff)
      moreover from True c(2) have "scoreGreater (candidateScore (t, enc)) (candidateScore c)"
        by simp
      ultimately show ?thesis by (rule scoreGreater_trans_not[rotated])
    qed
    then have "list_all (\<lambda>c'. \<not> scoreGreater (candidateScore c') (candidateScore (t, enc)))
                 (seen @ [(t, enc)])"
      by (simp add: list_all_iff scoreGreater_irrefl)
    with True \<open>seen \<noteq> []\<close> show ?thesis
      by (simp add: bestOf_def)
  next
    case False
    have "list_all (\<lambda>c'. \<not> scoreGreater (candidateScore c') (candidateScore c))
            (seen @ [(t, enc)])"
      using c(3) False c(2) by simp
    with c(1,2) have "list_ex (\<lambda>c. best = (Some (fst c), candidateScore c)
        \<and> list_all (\<lambda>c'. \<not> scoreGreater (candidateScore c') (candidateScore c))
             (seen @ [(t, enc)])) seen"
      unfolding list_ex_iff by blast
    with False show ?thesis
      by (simp add: bestOf_def)
  qed
qed

lemma fold_tryCandidate:
  "bestOf (nonEmptyDecodes lib buffer encs)
     (fold (tryCandidate lib buffer) encs (None, NegInfinity))"
proof (induction encs rule: rev_induct)
  case Nil
  show ?case by (simp add: bestOf_def nonEmptyDecodes_def)
next
  case (snoc enc encs)
  let ?best = "fold (tryCandidate lib buffer) encs (None, NegInfinity)"
  show ?case
  proof (cases "decodeWithEncoding lib buffer enc")
    case None
    with snoc show ?thesis
      by (simp add: nonEmptyDecodes_snoc tryCandidate_def)
  next
    case (Some t)
    show ?thesis
    proof (cases "t = []")
      case True
      with Some snoc show ?thesis
        by (simp add: nonEmptyDecodes_snoc tryCandidate_def)
    next
      case False
      have "tryCandidate lib buffer enc ?best =
            (if scoreGreater (candidateScore (t, enc)) (snd ?best)
             then (Some t, candidateScore (t, enc)) else ?best)"
        using Some False by (simp add: tryCandidate_def candidateScore_def Let_def)
      with bestOf_step[OF snoc False, of enc] Some False show ?thesis
        by (simp add: nonEmptyDecodes_snoc)
    qed
  qed
qed

lemma decode_selects: "buffer \<noteq> [] \<Longrightarrow> selectsBest lib buffer"
proof -
  assume b: "buffer \<noteq> []"
  let ?ds = "nonEmptyDecodes lib buffer (candidateOrder buffer)"
  let ?best = "fold (tryCandidate lib buffer) (candidateOrder buffer) (None, NegInfinity)"
  have inv: "bestOf ?ds ?best" by (rule fold_tryCandidate)
  show ?thesis
  proof (cases "?ds = []")
    case True
    with inv have "?best = (None, NegInfinity)" by (simp add: bestOf_def)
    with True b show ?thesis by (simp add: selectsBest_def decodeScriptBuffer_def)
  next
    case False
    with inv obtain c where c: "c \<in> set ?ds" "?best = (Some (fst c), candidateScore c)"
      "list_all (\<lambda>c'. \<not> scoreGreater (candidateScore c') (candidateScore c)) ?ds"
      by (auto simp: bestOf_def list_ex_iff)
    have "fst c \<noteq> []" using c(1) by (rule nonEmptyDecodes_nonempty)
    then have "decodeScriptBuffer lib buffer = fst c"
      using b c(2)
      by (simp add: decodeScriptBuffer_def scoreGreater_NegInfinity candidateScore_finite)
    with False c show ?thesis
      by (auto simp: selectsBest_def Let_def list_ex_iff)
  qed
qed

text \<open>
  What the decoder does. The score of a non-empty decoded text is 6 for each Han
  ideograph, 2 for each printable ASCII character, minus 3 for each character from U+0080
  to U+00FF, minus 20 for each replacement character U+FFFD, plus 5 when the candidate
  encoding is one of the labels \<open>utf8\<close> and \<open>utf-8\<close>; and for a non-empty buffer the
  decoder returns the text of a candidate whose decoding is not empty and that no such
  candidate outscores (the plain UTF-8 decoding when there is none).
\<close>

lemma decoder_score_and_selection:
  "(t \<noteq> [] \<longrightarrow> scoreDecodedText (analyzeTextStats t) encoding = Score (utf8Score t encoding))
   \<and> (buffer \<noteq> [] \<longrightarrow> selectsBest lib buffer)"
  using score_formula decode_selects by blast

text \<open>
  C6 on the code. The comment in \<open>scoreDecodedText\<close> announces a bonus for the UTF
  encodings, and the condition under it gives the bonus to the labels \<open>utf8\<close> and \<open>utf-8\<close>
  only: the text \<open>a\<close> decoded as UTF-16LE, UTF-16BE, UTF-32LE or UTF-32BE scores 2, where
  the score with the bonus of 5 for the UTF family is 7; decoded as UTF-8 it scores 7.
\<close>

theorem C6_utf_family_gets_no_bonus:
  "scoreDecodedText (analyzeTextStats (ascii ''a'')) ''utf16le'' = Score 2
   \<and> scoreDecodedText (analyzeTextStats (ascii ''a'')) ''utf16be'' = Score 2
   \<and> scoreDecodedText (analyzeTextStats (ascii ''a'')) ''utf32le'' = Score 2
   \<and> scoreDecodedText (analyzeTextStats (ascii ''a'')) ''utf32be'' = Score 2
   \<and> scoreDecodedText (analyzeTextStats (ascii ''a'')) ''utf8'' = Score 7
   \<and> specScore (ascii ''a'') ''utf16le'' = 7
   \<and> specScore (ascii ''a'') ''utf16be'' = 7
   \<and> specScore (ascii ''a'') ''utf32le'' = 7
   \<and> specScore (ascii ''a'') ''utf32be'' = 7
   \<and> specScore (ascii ''a'') ''utf8'' = 7"
  by (simp add: score_formula ascii_def utf8Score_def specScore_def baseScore_def countOf_def
      utf8Label_def utfFamily_def isHan_def isPrintableAscii_def isLatinSupplement_def
      isReplacement_def)

section \<open>Stored lines\<close>

lemma cleaned_no_lf:
  "0x0A \<notin> set t \<Longrightarrow> 0x0A \<notin> set (trim (dropTrailing P (dropWhile Q t)))"
proof -
  have "sublist (trim (dropTrailing P (dropWhile Q t))) t"
    by (meson sublist_trim sublist_dropTrailing sublist_dropWhile sublist_order.order_trans)
  then show "0x0A \<notin> set t \<Longrightarrow> ?thesis" using set_mono_sublist by blast
qed

lemma validType_pushedType: "validType (pushedType ty)"
  by (simp add: validType_def pushedType_def)

lemma normalizeItem_ok: "list_all lineOk (normalizeItem ps keepEmpty item)"
  by (simp add: normalizeItem_def Let_def lineOk_def validType_pushedType cleaned_no_lf
      sanitize_no_lf)

lemma normalizeEntry_ok: "list_all lineOk (normalizeEntry ps keepEmpty entry)"
proof (cases "normalizeLineEntry entry keepEmpty")
  case None
  then show ?thesis by (simp add: normalizeEntry_def)
next
  case (Some base)
  have "list_all lineOk (concat (map (normalizeItem ps keepEmpty) items))" for items
    using normalizeItem_ok by (auto simp: list_all_iff)
  with Some show ?thesis
    by (simp add: normalizeEntry_def lineOk_def validType_pushedType)
qed

lemma normalizeScriptLines_ok: "list_all lineOk (normalizeScriptLines ps entries keepEmpty)"
  using normalizeEntry_ok
  by (auto simp: normalizeScriptLines_def Let_def list_all_iff)

lemma enforceEntry_ok: "lineOk entry \<Longrightarrow> list_all lineOk (enforceEntry limit entry)"
  using sanitize_no_lf
  by (auto simp: enforceEntry_def list_all_iff lineOk_def validType_def)

lemma enforceLineLengths_ok:
  "list_all lineOk entries \<Longrightarrow> list_all lineOk (enforceLineLengths entries limit)"
  using enforceEntry_ok by (auto simp: enforceLineLengths_def list_all_iff)

lemma fallbackLines_ok: "list_all lineOk (fallbackLines ps chunkText)"
  unfolding fallbackLines_def by (rule enforceLineLengths_ok) (rule normalizeScriptLines_ok)

lemma lines_clampIndex: "lines (clampIndex s) = lines s"
  by (simp add: clampIndex_def)

lemma broadcastBoth_ok: "list_all lineOk (lines (fst (broadcastBoth ps s)))"
  by (simp add: broadcastBoth_def broadcastControlState_def broadcastViewerState_def Let_def
      lines_clampIndex ensureSessionLines_def normalizeScriptLines_ok)

lemma applyEdit_ok:
  "list_all lineOk (lines s) \<Longrightarrow> list_all lineOk (lines (fst (applyEdit ps s e)))"
  by (cases e)
     (simp_all add: setCurrentIndex_def shiftIndex_def setDisplay_def updateLine_def
        setLineType_def splitLine_def insertLineAfter_def deleteLine_def putLines_def Let_def
        broadcastBoth_ok split: option.splits)

lemma commitLines_ok: "list_all lineOk (lines (fst (commitLines ps s newLines)))"
  by (simp add: commitLines_def split_beta ensureSessionLines_def normalizeScriptLines_ok)

lemma uploadScript_ok:
  "list_all lineOk (lines s) \<Longrightarrow> list_all lineOk (lines (fst (uploadScript ps lib service s buffer)))"
  by (simp add: uploadScript_def Let_def split_beta commitLines_ok split: sum.splits)


lemma twoLineSession_ok: "list_all lineOk (lines twoLineSession)"
  by code_simp

text \<open>
  C7, as the code has it. Every line that normalization produces, every line of a
  chunk's fallback segmentation, and every line stored in a session after an edit
  (setting or shifting the index, showing or hiding, updating, retyping, splitting,
  inserting, deleting, bulk replace) or after an upload holds no line feed U+000A in its
  text, and its type is one of the two strings \<open>dialogue\<close> and \<open>direction\<close>.
\<close>

theorem C7_stored_lines:
  "list_all lineOk (normalizeScriptLines ps entries keepEmpty)
   \<and> list_all lineOk (fallbackLines ps chunkText)
   \<and> (list_all lineOk (lines s) \<longrightarrow> list_all lineOk (lines (fst (applyEdit ps s e))))
   \<and> (list_all lineOk (lines s)
        \<longrightarrow> list_all lineOk (lines (fst (uploadScript ps lib service s buffer))))"
  using normalizeScriptLines_ok fallbackLines_ok applyEdit_ok uploadScript_ok by blast

theorem C7_stored_lines_witness:
  "list_all lineOk (lines twoLineSession)
   \<and> list_all lineOk (lines (fst (applyEdit samplePS twoLineSession
         (UpdateLine (Some 1) (Some [0x61, 0x07, 0x0A, 0x62]) None))))
   \<and> list_all lineOk (lines (fst (uploadScript samplePS oneByteCodec (\<lambda>i c. NotJson)
         twoLineSession (ascii ''Hi there''))))"
  using C7_stored_lines[of samplePS "[]" True "[]" twoLineSession
          "UpdateLine (Some 1) (Some [0x61, 0x07, 0x0A, 0x62]) None" oneByteCodec
          "\<lambda>i c. NotJson" "ascii ''Hi there''"]
        twoLineSession_ok
  by blast

text \<open>
  C7 as the specification states it fails: \<open>sanitizeLineText\<close> replaces line feeds and
  trims, and removes no other control character. After \<open>updateLine\<close> with the text
  \<open>a\<close>, U+0007, \<open>b\<close> the stored line holds the control character U+0007.
\<close>

theorem C7_control_character_counterexample:
  "list_all specLineOk (lines twoLineSession)
   \<and> \<not> list_all specLineOk (lines (fst (applyEdit samplePS twoLineSession
             (UpdateLine (Some 1) (Some [0x61, 0x07, 0x62]) None))))
   \<and> ltext (lines (fst (applyEdit samplePS twoLineSession
             (UpdateLine (Some 1) (Some [0x61, 0x07, 0x62]) None))) ! 1) = [0x61, 0x07, 0x62]"
  by code_simp

section \<open>Chunker\<close>

text \<open>
  C8 on the code. \<open>chunkLongUnit\<close> tests only its last piece for emptiness: with limit 1
  the sentence \<open>a b\<close> is sliced into \<open>a\<close>, a blank and \<open>b\<close>, and the blank becomes an
  empty chunk. The sentence pattern also passes over a terminator that follows another:
  \<open>a!!b\<close> with limit 10 gives the one chunk \<open>a!\<close>, line feed, \<open>b\<close>, which has lost an
  exclamation mark.
\<close>

theorem C8_empty_chunk_and_lost_mark:
  "chunkScript (ascii ''a b'') 1 = Some [ascii ''a'', [], ascii ''b'']
   \<and> chunkScript (ascii ''a!!b'') 10 = Some [ascii ''a!'' @ [0x0A] @ ascii ''b'']"
  by code_simp

section \<open>Heuristic classifier\<close>










section \<open>Uploads: commit\<close>

lemma clampIndex_zero:
  "currentIndex s = Num 0 \<Longrightarrow> currentIndex (clampIndex s) = Num 0"
  by (simp add: clampIndex_def)

lemma clampIndex_display: "displayEnabled (clampIndex s) = displayEnabled s"
  by (simp add: clampIndex_def)

lemma broadcastBoth_fields:
  "displayEnabled (fst (broadcastBoth ps s)) = displayEnabled s"
  "currentIndex s = Num 0 \<Longrightarrow> currentIndex (fst (broadcastBoth ps s)) = Num 0"
  by (simp_all add: broadcastBoth_def broadcastControlState_def broadcastViewerState_def
      Let_def clampIndex_zero clampIndex_display ensureSessionLines_def)

lemma commitLines_fields:
  "currentIndex (fst (commitLines ps s newLines)) = Num 0"
  "displayEnabled (fst (commitLines ps s newLines)) = True"
  by (simp_all add: commitLines_def split_beta ensureSessionLines_def broadcastBoth_fields)

lemma hidden_upload_succeeds:
  "uploadSucceeded (snd (snd (uploadScript samplePS oneByteCodec (\<lambda>i c. NotJson) hiddenSession
     (ascii ''Hi there''))))"
  by code_simp

text \<open>
  C10. Every upload that succeeds, from the service's validated lines or from the
  whole-script fallback, leaves the session with current index 0 and the display enabled,
  whatever they were before.
\<close>

theorem C10_upload_resets_index_and_display:
  "uploadSucceeded (snd (snd (uploadScript ps lib service s buffer)))
   \<Longrightarrow> currentIndex (fst (uploadScript ps lib service s buffer)) = Num 0
       \<and> displayEnabled (fst (uploadScript ps lib service s buffer)) = True"
  by (auto simp: uploadScript_def uploadSucceeded_def Let_def split_beta commitLines_fields
      split: sum.splits if_splits)

theorem C10_upload_resets_witness:
  "currentIndex hiddenSession = Num 1 \<and> displayEnabled hiddenSession = False
   \<and> currentIndex (fst (uploadScript samplePS oneByteCodec (\<lambda>i c. NotJson) hiddenSession
         (ascii ''Hi there''))) = Num 0
   \<and> displayEnabled (fst (uploadScript samplePS oneByteCodec (\<lambda>i c. NotJson) hiddenSession
         (ascii ''Hi there''))) = True"
  using C10_upload_resets_index_and_display[OF hidden_upload_succeeds]
  by (simp add: hiddenSession_def)

section \<open>Segmentation runs\<close>










subsection \<open>A script of two chunks\<close>












subsection \<open>Length enforcement is idempotent\<close>


























section \<open>Uploads: transport failure\<close>











section \<open>Segmentation: fallback for one chunk\<close>







end
